theory Spec2Isabelle
  imports Complex_Main "HOL-Library.Word" "HOL-Library.Sublist"
begin

text \<open>
  The chat endpoint of the mini chat application: the two revisions of the mock route
  handler, which answer with word and character statistics of the prompt, and the
  provider route handler, which validates the request and forwards the conversation to
  OpenAI or Gemini.  Each handler is a function from the environment of one run and the
  request to the response (and, for the provider handler, the outbound calls made).
\<close>

section \<open>JavaScript strings\<close>

text \<open>
  A JavaScript string is a sequence of UTF-16 code units, and \<open>length\<close> counts code
  units.  The string literals of the handlers are ASCII, so \<open>js\<close> turns an ASCII
  literal into its code units.
\<close>

type_synonym jsstring = "16 word list"

definition js :: "string \<Rightarrow> jsstring" where
  "js s = map of_char s"

text \<open>
  The code units that \<open>String.prototype.trim\<close> strips and that the regular expression
  class \<open>\s\<close> matches: WhiteSpace (TAB, VT, FF, ZWNBSP and the space separators) and
  LineTerminator (LF, CR, LS, PS).
\<close>

definition is_ws :: "16 word \<Rightarrow> bool" where
  "is_ws c \<longleftrightarrow>
     (0x0009 \<le> c \<and> c \<le> 0x000D) \<or> c = 0x0020 \<or> c = 0x00A0 \<or> c = 0x1680 \<or>
     (0x2000 \<le> c \<and> c \<le> 0x200A) \<or> c = 0x2028 \<or> c = 0x2029 \<or> c = 0x202F \<or>
     c = 0x205F \<or> c = 0x3000 \<or> c = 0xFEFF"

text \<open>\<open>s.trim()\<close>\<close>

definition trim :: "jsstring \<Rightarrow> jsstring" where
  "trim s = rev (dropWhile is_ws (rev (dropWhile is_ws s)))"

text \<open>
  \<open>s.split(/\s+/)\<close>: the splitter walks the string; where the (greedy) pattern matches
  it closes the current piece and resumes after the whole run of whitespace; at the end
  it closes the last piece.  A string that starts or ends with whitespace gets an empty
  piece there, and the empty string gives one empty piece.
\<close>

function split_from :: "jsstring \<Rightarrow> jsstring \<Rightarrow> jsstring list" where
  "split_from cur [] = [cur]"
| "split_from cur (c # cs) =
     (if is_ws c then cur # split_from [] (dropWhile is_ws cs)
      else split_from (cur @ [c]) cs)"
  by pat_completeness auto
termination
  by (relation "measure (\<lambda>(cur, s). length s)")
     (auto simp: length_dropWhile_le le_imp_less_Suc)

definition split_ws :: "jsstring \<Rightarrow> jsstring list" where
  "split_ws s = split_from [] s"

text \<open>\<open>Boolean(t)\<close> on a string: only the empty string is falsy.\<close>

definition Boolean_str :: "jsstring \<Rightarrow> bool" where
  "Boolean_str t \<longleftrightarrow> t \<noteq> []"

text \<open>
  Rendering of a non-negative integer in a radix (\<open>${n}\<close> in a template literal is radix
  10, \<open>n.toString(16)\<close> radix 16).  String lengths and \<open>Date.now()\<close> stay far below
  \<open>10^21\<close>, where JavaScript would switch to exponent notation.
\<close>

definition digit_char :: "nat \<Rightarrow> 16 word" where
  "digit_char d = js ''0123456789abcdef'' ! d"

function toString_radix :: "nat \<Rightarrow> nat \<Rightarrow> jsstring" where
  "toString_radix b n =
     (if b < 2 \<or> n < b then [digit_char n]
      else toString_radix b (n div b) @ [digit_char (n mod b)])"
  by pat_completeness auto
termination
  by (relation "measure (\<lambda>(b, n). n)") auto

declare toString_radix.simps [simp del]

definition Number_toString :: "nat \<Rightarrow> jsstring" where
  "Number_toString n = toString_radix 10 n"

section \<open>JSON values and requests\<close>

text \<open>
  The value \<open>req.json()\<close> resolves to.  An object is the list of its own properties
  (a parsed object has each key once).  A number carries the value of the parsed
  double; the handlers only ever test a number for being zero.
\<close>

datatype json =
    JNull
  | JBool bool
  | JNum rat
  | JStr jsstring
  | JArr "json list"
  | JObj "(jsstring \<times> json) list"

datatype exn = SyntaxError | TypeError | UpstreamError

text \<open>
  A request carries a body text; \<open>req.json()\<close> rejects with a SyntaxError when the
  text is not JSON.
\<close>

datatype request = NotJSON | JSON json

fun req_json :: "request \<Rightarrow> exn + json" where
  "req_json NotJSON = Inl SyntaxError"
| "req_json (JSON v) = Inr v"

text \<open>
  \<open>v.k\<close> for the property names the handlers read (\<open>provider\<close>, \<open>messages\<close>,
  \<open>prompt\<close>, \<open>role\<close>, \<open>content\<close>), none of which is on a prototype: reading from
  \<open>null\<close> throws, an object gives its own property or \<open>undefined\<close> (None), every other
  value gives \<open>undefined\<close>.
\<close>

fun get_field :: "json \<Rightarrow> jsstring \<Rightarrow> exn + json option" where
  "get_field JNull k = Inl TypeError"
| "get_field (JObj kvs) k = Inr (map_of kvs k)"
| "get_field (JBool b) k = Inr None"
| "get_field (JNum n) k = Inr None"
| "get_field (JStr s) k = Inr None"
| "get_field (JArr vs) k = Inr None"

text \<open>\<open>typeof v === 'string'\<close>, giving the string.\<close>

fun as_string :: "json option \<Rightarrow> jsstring option" where
  "as_string (Some (JStr s)) = Some s"
| "as_string _ = None"

text \<open>\<open>Array.isArray(v)\<close>, giving the elements.\<close>

fun as_array :: "json option \<Rightarrow> json list option" where
  "as_array (Some (JArr vs)) = Some vs"
| "as_array _ = None"

text \<open>Truthiness of a value that may be \<open>undefined\<close>.\<close>

fun truthy :: "json option \<Rightarrow> bool" where
  "truthy None = False"
| "truthy (Some JNull) = False"
| "truthy (Some (JBool b)) = b"
| "truthy (Some (JNum n)) = (n \<noteq> 0)"
| "truthy (Some (JStr s)) = (s \<noteq> [])"
| "truthy (Some (JArr vs)) = True"
| "truthy (Some (JObj kvs)) = True"

section \<open>Responses\<close>

datatype Role = User | Assistant | System

record ChatMessage =
  msg_id :: jsstring
  role :: Role
  content :: jsstring
  createdAt :: jsstring

datatype payload = Message ChatMessage | Error jsstring

record response =
  status :: nat
  payload :: payload

text \<open>\<open>NextResponse.json(body, { status })\<close>\<close>

definition NextResponse_json :: "payload \<Rightarrow> nat \<Rightarrow> response" where
  "NextResponse_json b st = \<lparr>status = st, payload = b\<rparr>"

text \<open>The \<open>catch\<close> branch shared by the three handlers.\<close>

definition internal_error :: response where
  "internal_error = NextResponse_json (Error (js ''Internal server error'')) 500"

section \<open>Environment\<close>

text \<open>
  What one run of a handler reads from outside: the platform's \<open>crypto.randomUUID()\<close>
  (None where the global or the method is missing), \<open>Math.random().toString(16)\<close>,
  \<open>Date.now()\<close>, \<open>new Date().toISOString()\<close>, the two credentials of
  \<open>process.env\<close>, the two provider SDK calls (which may throw), and the two string
  built-ins used to build the Gemini prompt: \<open>toUpperCase\<close>, and the conversion a
  template literal applies to a value, which throws a TypeError on an object that has
  no callable \<open>toString\<close> or \<open>valueOf\<close> giving a primitive.
\<close>

record openai_message =
  om_role :: jsstring
  om_content :: "json option"

record openai_request =
  model :: jsstring
  messages :: "openai_message list"
  temperature :: rat
  max_tokens :: nat

datatype completion_message = CompletionMessage (cm_content: "jsstring option")
datatype choice = Choice (message: "completion_message option")
datatype completion = Completion (choices: "choice list")

record gemini_content =
  gc_role :: jsstring
  parts :: "jsstring list"

record gemini_request =
  gemini_model :: jsstring
  contents :: "gemini_content list"

record env =
  crypto_randomUUID :: "jsstring option"
  Math_random_16 :: jsstring
  Date_now :: nat
  Date_toISOString :: jsstring
  OPENAI_API_KEY :: "jsstring option"
  GOOGLE_API_KEY :: "jsstring option"
  chat_completions_create :: "jsstring \<Rightarrow> openai_request \<Rightarrow> exn + completion"
  generateContent_text :: "jsstring \<Rightarrow> gemini_request \<Rightarrow> exn + jsstring option"
  toUpperCase :: "jsstring \<Rightarrow> jsstring"
  template_ToString :: "json option \<Rightarrow> exn + jsstring"

section \<open>The mock responder\<close>

text \<open>\<open>generateId\<close> (the utility module and its copy in the second mock handler).\<close>

definition generateId :: "env \<Rightarrow> jsstring" where
  "generateId e =
     (case crypto_randomUUID e of
        Some uuid \<Rightarrow> uuid
      | None \<Rightarrow>
          (let randomPart = drop 2 (Math_random_16 e);
               timePart = toString_radix 16 (Date_now e)
           in timePart @ js ''-'' @ randomPart))"

text \<open>The reply template of both mock handlers.\<close>

definition replyContent :: "jsstring \<Rightarrow> nat \<Rightarrow> nat \<Rightarrow> jsstring" where
  \<open>replyContent prompt wordCount charCount =
     js ''You said: "'' @ prompt @ js ''"\<newline>\<newline>Here is a simple analysis of your message:\<newline>- Approximate word count: '' @
     Number_toString wordCount @
     js ''\<newline>- Character count (including spaces): '' @
     Number_toString charCount @
     js ''\<newline>\<newline>This is mini, a mock AI assistant. Replace the logic in /app/api/chat/route.ts with a real LLM API call (OpenAI, Gemini, etc.) to get smarter responses.''\<close>

text \<open>\<open>prompt.split(/\s+/).filter(Boolean).length\<close>\<close>

definition wordCount_of :: "jsstring \<Rightarrow> nat" where
  "wordCount_of prompt = length (filter Boolean_str (split_ws prompt))"

text \<open>
  The first mock handler: the message id is \<open>crypto.randomUUID()\<close>, called unguarded, so
  where the platform lacks it the call throws into the \<open>catch\<close>.
\<close>

definition POST_mock_randomUUID :: "env \<Rightarrow> request \<Rightarrow> response" where
  "POST_mock_randomUUID e req =
     (case req_json req of
        Inl ex \<Rightarrow> internal_error
      | Inr body \<Rightarrow>
          (case get_field body (js ''prompt'') of
             Inl ex \<Rightarrow> internal_error
           | Inr v \<Rightarrow>
               (case as_string v of
                  None \<Rightarrow> NextResponse_json (Error (js ''Prompt is required'')) 400
                | Some p \<Rightarrow>
                    if length (trim p) = 0
                    then NextResponse_json (Error (js ''Prompt is required'')) 400
                    else
                      (let prompt = trim p;
                           wordCount = wordCount_of prompt;
                           charCount = length prompt
                       in case crypto_randomUUID e of
                            None \<Rightarrow> internal_error
                          | Some uuid \<Rightarrow>
                              NextResponse_json
                                (Message \<lparr>msg_id = uuid, role = Assistant,
                                   content = replyContent prompt wordCount charCount,
                                   createdAt = Date_toISOString e\<rparr>) 200))))"

text \<open>
  The second mock handler: the message id comes from \<open>generateId\<close>.  Its \<open>catch\<close> also
  logs the exception with \<open>console.error\<close>; the log is not part of the response and is
  left out.
\<close>

definition POST_mock_generateId :: "env \<Rightarrow> request \<Rightarrow> response" where
  "POST_mock_generateId e req =
     (case req_json req of
        Inl ex \<Rightarrow> internal_error
      | Inr body \<Rightarrow>
          (case get_field body (js ''prompt'') of
             Inl ex \<Rightarrow> internal_error
           | Inr v \<Rightarrow>
               (case as_string v of
                  None \<Rightarrow> NextResponse_json (Error (js ''Prompt is required'')) 400
                | Some p \<Rightarrow>
                    if length (trim p) = 0
                    then NextResponse_json (Error (js ''Prompt is required'')) 400
                    else
                      (let prompt = trim p;
                           wordCount = wordCount_of prompt;
                           charCount = length prompt
                       in NextResponse_json
                            (Message \<lparr>msg_id = generateId e, role = Assistant,
                               content = replyContent prompt wordCount charCount,
                               createdAt = Date_toISOString e\<rparr>) 200))))"

section \<open>The provider handler\<close>

definition OPENAI_MODEL :: jsstring where
  "OPENAI_MODEL = js ''gpt-4o-mini''"

definition GEMINI_MODEL :: jsstring where
  "GEMINI_MODEL = js ''gemini-1.5-flash''"

definition systemPrompt :: jsstring where
  "systemPrompt = js ''You are mini, a helpful AI assistant. Be concise, clear, and friendly.''"

definition fallback_text :: jsstring where
  "fallback_text = js ''I could not generate a response.''"

text \<open>
  \<open>getOpenAIClient\<close> and \<open>getGeminiClient\<close>: \<open>!apiKey\<close> holds for a missing and for an
  empty credential.  A client is represented by the key it was built with.
\<close>

definition getOpenAIClient :: "env \<Rightarrow> jsstring option" where
  "getOpenAIClient e =
     (case OPENAI_API_KEY e of
        None \<Rightarrow> None
      | Some apiKey \<Rightarrow> if apiKey = [] then None else Some apiKey)"

definition getGeminiClient :: "env \<Rightarrow> jsstring option" where
  "getGeminiClient e =
     (case GOOGLE_API_KEY e of
        None \<Rightarrow> None
      | Some apiKey \<Rightarrow> if apiKey = [] then None else Some apiKey)"

text \<open>
  \<open>xs.find((m) => m.role === 'user')\<close>: the callback runs on the elements in order
  until one matches; on a \<open>null\<close> element reading \<open>m.role\<close> throws.
\<close>

fun find_user :: "json list \<Rightarrow> exn + json option" where
  "find_user [] = Inr None"
| "find_user (m # ms) =
     (case get_field m (js ''role'') of
        Inl ex \<Rightarrow> Inl ex
      | Inr r \<Rightarrow> if r = Some (JStr (js ''user'')) then Inr (Some m) else find_user ms)"

text \<open>The \<open>messages.map\<close> of the OpenAI branch.\<close>

fun openai_map :: "json list \<Rightarrow> exn + openai_message list" where
  "openai_map [] = Inr []"
| "openai_map (m # ms) =
     (case get_field m (js ''role'') of
        Inl ex \<Rightarrow> Inl ex
      | Inr r \<Rightarrow>
          (case get_field m (js ''content'') of
             Inl ex \<Rightarrow> Inl ex
           | Inr c \<Rightarrow>
               (case openai_map ms of
                  Inl ex \<Rightarrow> Inl ex
                | Inr rest \<Rightarrow>
                    Inr (\<lparr>om_role = (if r = Some (JStr (js ''user'')) then js ''user''
                                      else js ''assistant''),
                          om_content = c\<rparr> # rest))))"

text \<open>
  The \<open>messages.map\<close> of the Gemini branch: \<open>m.role.toUpperCase()\<close> throws unless
  \<open>m.role\<close> is a string, and the conversion of \<open>m.content\<close> in the template literal
  may throw.
\<close>

fun gemini_map :: "env \<Rightarrow> json list \<Rightarrow> exn + jsstring list" where
  "gemini_map e [] = Inr []"
| "gemini_map e (m # ms) =
     (case get_field m (js ''role'') of
        Inl ex \<Rightarrow> Inl ex
      | Inr r \<Rightarrow>
          (case as_string r of
             None \<Rightarrow> Inl TypeError
           | Some s \<Rightarrow>
               (case get_field m (js ''content'') of
                  Inl ex \<Rightarrow> Inl ex
                | Inr c \<Rightarrow>
                    (case template_ToString e c of
                       Inl ex \<Rightarrow> Inl ex
                     | Inr txt \<Rightarrow>
                         (case gemini_map e ms of
                            Inl ex \<Rightarrow> Inl ex
                          | Inr rest \<Rightarrow>
                              Inr ((toUpperCase e s @ js '': '' @ txt) # rest))))))"

text \<open>
  \<open>completion.choices[0]?.message?.content ?? 'I could not generate a response.'\<close>:
  a completion has a list of choices, a choice may lack its message, and the content of a
  message is a string or \<open>null\<close> (None).
\<close>

definition first_content :: "completion \<Rightarrow> jsstring" where
  "first_content c =
     (case choices c of
        [] \<Rightarrow> fallback_text
      | ch # rest \<Rightarrow>
          (case message ch of
             None \<Rightarrow> fallback_text
           | Some m \<Rightarrow>
               (case cm_content m of
                  None \<Rightarrow> fallback_text
                | Some s \<Rightarrow> s)))"

text \<open>
  \<open>result.response.text() ?? 'I could not generate a response.'\<close>, where None stands
  for a \<open>null\<close> or \<open>undefined\<close> result of \<open>text()\<close>.
\<close>

definition responseText_of :: "jsstring option \<Rightarrow> jsstring" where
  "responseText_of t = (case t of None \<Rightarrow> fallback_text | Some s \<Rightarrow> s)"

text \<open>The outbound calls a run makes, in order.\<close>

datatype outbound =
    OpenAI_call jsstring openai_request
  | Gemini_call jsstring gemini_request

definition openai_branch :: "env \<Rightarrow> json list \<Rightarrow> response \<times> outbound list" where
  "openai_branch e ms =
     (case getOpenAIClient e of
        None \<Rightarrow>
          (NextResponse_json
             (Error (js ''OPENAI_API_KEY is not configured on the server'')) 500, [])
      | Some client \<Rightarrow>
          (case openai_map ms of
             Inl ex \<Rightarrow> (internal_error, [])
           | Inr mapped \<Rightarrow>
               (let openaiMessages =
                      \<lparr>om_role = js ''system'', om_content = Some (JStr systemPrompt)\<rparr> # mapped;
                    rq = \<lparr>model = OPENAI_MODEL, messages = openaiMessages,
                          temperature = 7 / 10, max_tokens = 512\<rparr>
                in case chat_completions_create e client rq of
                     Inl ex \<Rightarrow> (internal_error, [OpenAI_call client rq])
                   | Inr completion \<Rightarrow>
                       (NextResponse_json
                          (Message \<lparr>msg_id = generateId e, role = Assistant,
                             content = first_content completion,
                             createdAt = Date_toISOString e\<rparr>) 200,
                        [OpenAI_call client rq]))))"

definition gemini_branch :: "env \<Rightarrow> json list \<Rightarrow> response \<times> outbound list" where
  "gemini_branch e ms =
     (case getGeminiClient e of
        None \<Rightarrow>
          (NextResponse_json
             (Error (js ''GOOGLE_API_KEY is not configured on the server'')) 500, [])
      | Some client \<Rightarrow>
          (case gemini_map e ms of
             Inl ex \<Rightarrow> (internal_error, [])
           | Inr mapped \<Rightarrow>
               (let textParts = systemPrompt # mapped;
                    rq = \<lparr>gemini_model = GEMINI_MODEL,
                          contents = [\<lparr>gc_role = js ''user'', parts = textParts\<rparr>]\<rparr>
                in case generateContent_text e client rq of
                     Inl ex \<Rightarrow> (internal_error, [Gemini_call client rq])
                   | Inr t \<Rightarrow>
                       (NextResponse_json
                          (Message \<lparr>msg_id = generateId e, role = Assistant,
                             content = responseText_of t,
                             createdAt = Date_toISOString e\<rparr>) 200,
                        [Gemini_call client rq]))))"

text \<open>
  The provider handler, with the outbound calls it made.  Every exception inside the
  \<open>try\<close> ends in the \<open>catch\<close>.
\<close>

definition POST_provider :: "env \<Rightarrow> request \<Rightarrow> response \<times> outbound list" where
  "POST_provider e req =
     (case req_json req of
        Inl ex \<Rightarrow> (internal_error, [])
      | Inr body \<Rightarrow>
          (case get_field body (js ''provider'') of
             Inl ex \<Rightarrow> (internal_error, [])
           | Inr provider \<Rightarrow>
               if \<not> truthy provider \<or>
                  (provider \<noteq> Some (JStr (js ''openai'')) \<and>
                   provider \<noteq> Some (JStr (js ''gemini'')))
               then (NextResponse_json
                       (Error (js ''Invalid provider, must be \"openai\" or \"gemini\"'')) 400, [])
               else
                 (case get_field body (js ''messages'') of
                    Inl ex \<Rightarrow> (internal_error, [])
                  | Inr msgs \<Rightarrow>
                      (case as_array msgs of
                         None \<Rightarrow>
                           (NextResponse_json
                              (Error (js ''Messages array is required and cannot be empty'')) 400, [])
                       | Some ms \<Rightarrow>
                           if length ms = 0
                           then (NextResponse_json
                                   (Error (js ''Messages array is required and cannot be empty'')) 400, [])
                           else
                             (case find_user (rev ms) of
                                Inl ex \<Rightarrow> (internal_error, [])
                              | Inr latestUser \<Rightarrow>
                                  if \<not> truthy latestUser
                                  then (NextResponse_json
                                          (Error (js ''At least one user message is required'')) 400, [])
                                  else if provider = Some (JStr (js ''openai''))
                                  then openai_branch e ms
                                  else if provider = Some (JStr (js ''gemini''))
                                  then gemini_branch e ms
                                  else (NextResponse_json
                                          (Error (js ''Unsupported provider'')) 400, []))))))"

section \<open>Word counting in the words of the specification\<close>

text \<open>
  The word count in the words of the specification, the number of whitespace-delimited
  tokens: a token is a maximal run of non-whitespace units, and each token has exactly
  one start, a non-whitespace unit at the beginning of the string or right after a
  whitespace unit.
\<close>

definition token_start :: "jsstring \<Rightarrow> nat \<Rightarrow> bool" where
  "token_start s i \<longleftrightarrow> i < length s \<and> \<not> is_ws (s ! i) \<and> (i = 0 \<or> is_ws (s ! (i - 1)))"

definition token_count :: "jsstring \<Rightarrow> nat" where
  "token_count s = length (filter (token_start s) [0..<length s])"

text \<open>
  An auxiliary count for the proofs, the token starts of a string in one pass: \<open>prev\<close>
  says that the position before is the start of the string or whitespace, so a
  non-whitespace unit there opens a token.
\<close>

fun starts :: "bool \<Rightarrow> jsstring \<Rightarrow> nat" where
  "starts prev [] = 0"
| "starts prev (c # cs) = (if \<not> is_ws c \<and> prev then 1 else 0) + starts (is_ws c) cs"

section \<open>Properties of responses\<close>

text \<open>
  A rejection: status 400 with an error object whose error string is not empty.
\<close>

definition bad_request :: "response \<Rightarrow> bool" where
  "bad_request r \<longleftrightarrow> status r = 400 \<and> (case payload r of Error s \<Rightarrow> s \<noteq> [] | Message m \<Rightarrow> False)"

text \<open>
  A 200 response whose message text starts with the quoted prompt after \<open>You said: \<close>
  and contains the word-count line and the character-count line with the given decimal
  numbers.
\<close>

definition embeds_counts :: "jsstring \<Rightarrow> jsstring \<Rightarrow> jsstring \<Rightarrow> response \<Rightarrow> bool" where
  \<open>embeds_counts quoted words chars r \<longleftrightarrow>
     status r = 200 \<and>
     (case payload r of
        Error s \<Rightarrow> False
      | Message m \<Rightarrow>
          prefix (js ''You said: "'' @ quoted @ js ''"'') (content m) \<and>
          sublist (js ''- Approximate word count: '' @ words @ js ''\<newline>'') (content m) \<and>
          sublist (js ''- Character count (including spaces): '' @ chars @ js ''\<newline>'') (content m))\<close>

text \<open>
  Reading a string of decimal digits as a number, to say which number a count line of
  the reply shows.
\<close>

definition digit_value :: "16 word \<Rightarrow> nat" where
  "digit_value c = unat c - 48"

definition decimal_value :: "jsstring \<Rightarrow> nat" where
  "decimal_value s = foldl (\<lambda>a c. 10 * a + digit_value c) 0 s"

text \<open>
  A response with the two fields cleared that come from the id generator and the clock.
\<close>

definition without_id_and_time :: "response \<Rightarrow> response" where
  "without_id_and_time r =
     (case payload r of
        Error s \<Rightarrow> r
      | Message m \<Rightarrow> r\<lparr>payload := Message (m\<lparr>msg_id := [], createdAt := []\<rparr>)\<rparr>)"

section \<open>Sample inputs\<close>

text \<open>
  Concrete inputs for evaluating the handlers: an environment with the platform UUID and
  no credentials, whose provider calls fail (its \<open>toUpperCase\<close> covers ASCII letters,
  its template conversion strings and \<open>undefined\<close>);
  the same environment a second later with another UUID; variants with an OpenAI
  credential whose call returns one choice with the given content (None for \<open>null\<close>)
  and with a Gemini credential whose call returns the given text; the bodies the two
  clients send; a conversation with one user message and one with an assistant message
  only; the requests the provider branches build from the former.
\<close>

definition sample_env :: env where
  "sample_env =
     \<lparr>crypto_randomUUID = Some (js ''3b241101-e2bb-4255-8caf-4136c566a962''),
      Math_random_16 = js ''0.8c1f2a'',
      Date_now = 1700000000000,
      Date_toISOString = js ''2023-11-14T22:13:20.000Z'',
      OPENAI_API_KEY = None,
      GOOGLE_API_KEY = None,
      chat_completions_create = (\<lambda>k rq. Inl UpstreamError),
      generateContent_text = (\<lambda>k rq. Inl UpstreamError),
      toUpperCase = map (\<lambda>c. if 0x61 \<le> c \<and> c \<le> 0x7A then c - 0x20 else c),
      template_ToString =
        (\<lambda>v. case as_string v of Some s \<Rightarrow> Inr s | None \<Rightarrow> Inr (js ''undefined''))\<rparr>"

definition sample_chat :: "json list" where
  "sample_chat =
     [JObj [(js ''id'', JStr (js ''m1'')), (js ''role'', JStr (js ''user'')),
            (js ''content'', JStr (js ''hi'')),
            (js ''createdAt'', JStr (js ''2023-11-14T22:13:19.000Z''))]]"

definition provider_body :: "jsstring \<Rightarrow> json list \<Rightarrow> json" where
  "provider_body pv ms = JObj [(js ''provider'', JStr pv), (js ''messages'', JArr ms)]"

definition mock_body :: "json list \<Rightarrow> jsstring \<Rightarrow> json" where
  "mock_body ms p = JObj [(js ''messages'', JArr ms), (js ''prompt'', JStr p)]"

definition sample_env_openai :: "jsstring option \<Rightarrow> env" where
  "sample_env_openai c =
     sample_env
       \<lparr>OPENAI_API_KEY := Some (js ''sk-test''),
        chat_completions_create :=
          (\<lambda>k rq. Inr (Completion [Choice (Some (CompletionMessage c))]))\<rparr>"

definition sample_openai_request :: openai_request where
  "sample_openai_request =
     \<lparr>model = js ''gpt-4o-mini'',
      messages =
        [\<lparr>om_role = js ''system'',
          om_content = Some (JStr (js ''You are mini, a helpful AI assistant. Be concise, clear, and friendly.''))\<rparr>,
         \<lparr>om_role = js ''user'', om_content = Some (JStr (js ''hi''))\<rparr>],
      temperature = 7 / 10, max_tokens = 512\<rparr>"

definition sample_env_later :: env where
  "sample_env_later =
     sample_env
       \<lparr>crypto_randomUUID := Some (js ''9b2f6c1e-58a4-4f0e-9d67-0c5a3e1b7d42''),
        Date_toISOString := js ''2023-11-14T22:13:21.000Z''\<rparr>"

definition sample_env_gemini :: "jsstring option \<Rightarrow> env" where
  "sample_env_gemini t =
     sample_env
       \<lparr>GOOGLE_API_KEY := Some (js ''g-test''),
        generateContent_text := (\<lambda>k rq. Inr t)\<rparr>"

definition sample_gemini_request :: gemini_request where
  "sample_gemini_request =
     \<lparr>gemini_model = js ''gemini-1.5-flash'',
      contents =
        [\<lparr>gc_role = js ''user'',
          parts =
            [js ''You are mini, a helpful AI assistant. Be concise, clear, and friendly.'',
             js ''USER: hi'']\<rparr>]\<rparr>"

definition assistant_only_chat :: "json list" where
  "assistant_only_chat =
     [JObj [(js ''id'', JStr (js ''m0'')), (js ''role'', JStr (js ''assistant'')),
            (js ''content'', JStr (js ''hello'')),
            (js ''createdAt'', JStr (js ''2023-11-14T22:13:18.000Z''))]]"

section \<open>Trimming and word counting\<close>

lemma trim_Nil_iff: "trim s = [] \<longleftrightarrow> (\<forall>c\<in>set s. is_ws c)"
proof -
  have "set s = set (takeWhile is_ws s) \<union> set (dropWhile is_ws s)"
    by (metis set_append takeWhile_dropWhile_id)
  moreover have "\<forall>c\<in>set (takeWhile is_ws s). is_ws c"
    by (auto dest: set_takeWhileD)
  ultimately show ?thesis
    by (auto simp: trim_def dropWhile_eq_Nil_conv)
qed

lemma starts_dropWhile: "starts True (dropWhile is_ws s) = starts True s"
  by (induction s) auto

lemma starts_append_ws: "\<forall>c\<in>set t. is_ws c \<Longrightarrow> starts prev (s @ t) = starts prev s"
proof (induction s arbitrary: prev)
  case Nil
  then show ?case by (induction t arbitrary: prev) auto
next
  case (Cons a s)
  then show ?case by simp
qed

lemma rev_dropWhile_split: "\<exists>t. (\<forall>c\<in>set t. P c) \<and> s = rev (dropWhile P (rev s)) @ t"
proof -
  have "rev s = takeWhile P (rev s) @ dropWhile P (rev s)" by simp
  then have "s = rev (dropWhile P (rev s)) @ rev (takeWhile P (rev s))"
    by (metis rev_append rev_rev_ident)
  moreover have "\<forall>c\<in>set (rev (takeWhile P (rev s))). P c"
    by (auto dest: set_takeWhileD)
  ultimately show ?thesis by blast
qed

lemma starts_trim: "starts True (trim s) = starts True s"
proof -
  obtain t where t: "\<forall>c\<in>set t. is_ws c"
    and s: "dropWhile is_ws s = trim s @ t"
    unfolding trim_def using rev_dropWhile_split[of is_ws "dropWhile is_ws s"] by blast
  have "starts True s = starts True (dropWhile is_ws s)" by (simp add: starts_dropWhile)
  also have "\<dots> = starts True (trim s)" using s t by (simp add: starts_append_ws)
  finally show ?thesis by simp
qed

lemma split_from_count:
  "length (filter Boolean_str (split_from cur s)) = (if cur \<noteq> [] then 1 else 0) + starts (cur = []) s"
  by (induction cur s rule: split_from.induct) (auto simp: Boolean_str_def starts_dropWhile)

lemma wordCount_of_starts: "wordCount_of s = starts True s"
  by (simp add: wordCount_of_def split_ws_def split_from_count)

lemma starts_index:
  "starts prev s = length (filter (\<lambda>i. \<not> is_ws (s ! i) \<and> (if i = 0 then prev else is_ws (s ! (i - 1)))) [0..<length s])"
proof (induction s arbitrary: prev)
  case Nil
  then show ?case by simp
next
  case (Cons c cs)
  have "[0..<length (c # cs)] = 0 # map Suc [0..<length cs]"
    by (simp add: upt_conv_Cons map_Suc_upt del: upt_Suc)
  then show ?case
    by (simp add: Cons.IH filter_map comp_def nth_Cons' del: upt_Suc cong: filter_cong)
qed

lemma starts_token_count: "starts True s = token_count s"
  unfolding token_count_def starts_index
  by (rule arg_cong[where f = length], rule filter_cong) (auto simp: token_start_def)

lemma starts_pos: "\<exists>c\<in>set s. \<not> is_ws c \<Longrightarrow> 1 \<le> starts True s"
proof (induction s)
  case Nil
  then show ?case by simp
next
  case (Cons a s)
  then show ?case by (cases "is_ws a") auto
qed

lemma wordCount_trim: "wordCount_of (trim p) = token_count p"
  by (simp add: wordCount_of_starts starts_trim flip: starts_token_count)

lemma wordCount_trim_pos: "trim p \<noteq> [] \<Longrightarrow> 1 \<le> wordCount_of (trim p)"
  using starts_pos[of p] by (simp add: wordCount_of_starts starts_trim trim_Nil_iff)

lemma takeWhile_rev_dropWhile:
  assumes "\<exists>c\<in>set s. \<not> P c"
  shows "takeWhile P (rev (dropWhile P s)) = takeWhile P (rev s)"
proof -
  from assms have "dropWhile P s \<noteq> []" by (simp add: dropWhile_eq_Nil_conv)
  then have "\<not> P (hd (dropWhile P s))" by (rule hd_dropWhile)
  moreover have "hd (dropWhile P s) \<in> set (rev (dropWhile P s))"
    using \<open>dropWhile P s \<noteq> []\<close> by simp
  ultimately have ex: "\<exists>c\<in>set (rev (dropWhile P s)). \<not> P c" by blast
  have "rev s = rev (dropWhile P s) @ rev (takeWhile P s)"
    by (metis rev_append takeWhile_dropWhile_id)
  then show ?thesis
    using ex by (metis takeWhile_append1)
qed

lemma length_trim:
  assumes "trim p \<noteq> []"
  shows "length (trim p) + length (takeWhile is_ws p) + length (takeWhile is_ws (rev p)) = length p"
proof -
  from assms have ex: "\<exists>c\<in>set p. \<not> is_ws c" by (simp add: trim_Nil_iff)
  let ?d = "dropWhile is_ws p"
  have "length (trim p) + length (takeWhile is_ws (rev ?d)) = length ?d"
    unfolding trim_def
    by (metis add.commute length_append length_rev takeWhile_dropWhile_id)
  moreover have "length ?d + length (takeWhile is_ws p) = length p"
    by (metis add.commute length_append takeWhile_dropWhile_id)
  ultimately show ?thesis
    by (simp add: takeWhile_rev_dropWhile[OF ex])
qed

section \<open>The reply template\<close>

lemma replyContent_parts:
  \<open>replyContent pr w c =
     (js ''You said: "'' @ pr @ js ''"'') @
     (js ''\<newline>\<newline>Here is a simple analysis of your message:\<newline>'' @
      ((js ''- Approximate word count: '' @ Number_toString w @ js ''\<newline>'') @
       ((js ''- Character count (including spaces): '' @ Number_toString c @ js ''\<newline>'') @
        js ''\<newline>This is mini, a mock AI assistant. Replace the logic in /app/api/chat/route.ts with a real LLM API call (OpenAI, Gemini, etc.) to get smarter responses.'')))\<close>
  by (simp add: replyContent_def js_def)

lemma replyContent_embeds:
  "embeds_counts pr (Number_toString w) (Number_toString c)
     \<lparr>status = 200, payload = Message \<lparr>msg_id = i, role = rl, content = replyContent pr w c, createdAt = t\<rparr>\<rparr>"
proof -
  let ?txt = "replyContent pr w c"
  let ?head = \<open>js ''You said: "'' @ pr @ js ''"''\<close>
  let ?mid = "js ''\<newline>\<newline>Here is a simple analysis of your message:\<newline>''"
  let ?words = "js ''- Approximate word count: '' @ Number_toString w @ js ''\<newline>''"
  let ?chars = "js ''- Character count (including spaces): '' @ Number_toString c @ js ''\<newline>''"
  let ?tail = "js ''\<newline>This is mini, a mock AI assistant. Replace the logic in /app/api/chat/route.ts with a real LLM API call (OpenAI, Gemini, etc.) to get smarter responses.''"
  have 1: "prefix ?head ?txt"
    unfolding replyContent_parts by (rule prefixI) simp
  have "?txt = (?head @ ?mid) @ ?words @ (?chars @ ?tail)"
    unfolding replyContent_parts by simp
  then have 2: "sublist ?words ?txt"
    by (simp only: sublist_appendI)
  have "?txt = (?head @ ?mid @ ?words) @ ?chars @ ?tail"
    unfolding replyContent_parts by simp
  then have 3: "sublist ?chars ?txt"
    by (simp only: sublist_appendI)
  show ?thesis
    using 1 2 3 by (simp add: embeds_counts_def)
qed

subsection \<open>The decimal rendering reads back\<close>

lemma digit_less_10: "d < (10::nat) \<longleftrightarrow> d \<in> {0, 1, 2, 3, 4, 5, 6, 7, 8, 9}"
  by auto

lemma digit_value_digit_char: "d < 10 \<Longrightarrow> digit_value (digit_char d) = d"
  unfolding digit_less_10
  by (elim insertE emptyE) (simp_all add: digit_value_def digit_char_def js_def)

lemma decimal_value_snoc: "decimal_value (s @ [c]) = 10 * decimal_value s + digit_value c"
  by (simp add: decimal_value_def)

lemma decimal_value_toString: "decimal_value (toString_radix 10 n) = n"
proof (induction n rule: less_induct)
  case (less n)
  show ?case
  proof (cases "n < 10")
    case True
    then show ?thesis
      by (simp add: toString_radix.simps[of 10 n] decimal_value_def digit_value_digit_char)
  next
    case False
    then have "n div 10 < n" by simp
    then have "decimal_value (toString_radix 10 (n div 10)) = n div 10" by (rule less.IH)
    with False show ?thesis
      by (simp add: toString_radix.simps[of 10 n] decimal_value_snoc digit_value_digit_char)
  qed
qed

lemma decimal_value_Number_toString: "decimal_value (Number_toString n) = n"
  by (simp add: Number_toString_def decimal_value_toString)

lemma decimal_value_samples:
  "decimal_value (js ''1'') = 1" "decimal_value (js ''3'') = 3"
  by (simp_all add: decimal_value_def digit_value_def js_def)

section \<open>The mock handlers\<close>

lemma mock_generateId_accept:
  assumes "get_field body (js ''prompt'') = Inr (Some (JStr p))" and "trim p \<noteq> []"
  shows "POST_mock_generateId e (JSON body) =
     \<lparr>status = 200,
      payload = Message \<lparr>msg_id = generateId e, role = Assistant,
        content = replyContent (trim p) (wordCount_of (trim p)) (length (trim p)),
        createdAt = Date_toISOString e\<rparr>\<rparr>"
  using assms by (simp add: POST_mock_generateId_def NextResponse_json_def Let_def)

lemma mock_randomUUID_accept:
  assumes "get_field body (js ''prompt'') = Inr (Some (JStr p))" and "trim p \<noteq> []"
    and "crypto_randomUUID e = Some u"
  shows "POST_mock_randomUUID e (JSON body) =
     \<lparr>status = 200,
      payload = Message \<lparr>msg_id = u, role = Assistant,
        content = replyContent (trim p) (wordCount_of (trim p)) (length (trim p)),
        createdAt = Date_toISOString e\<rparr>\<rparr>"
  using assms by (simp add: POST_mock_randomUUID_def NextResponse_json_def Let_def)

lemma mock_generateId_reject:
  assumes "get_field body (js ''prompt'') = Inr v"
    and "as_string v = None \<or> (\<exists>p. as_string v = Some p \<and> trim p = [])"
  shows "POST_mock_generateId e (JSON body) =
     \<lparr>status = 400, payload = Error (js ''Prompt is required'')\<rparr>"
  using assms by (auto simp: POST_mock_generateId_def NextResponse_json_def)

lemma mock_randomUUID_reject:
  assumes "get_field body (js ''prompt'') = Inr v"
    and "as_string v = None \<or> (\<exists>p. as_string v = Some p \<and> trim p = [])"
  shows "POST_mock_randomUUID e (JSON body) =
     \<lparr>status = 400, payload = Error (js ''Prompt is required'')\<rparr>"
  using assms by (auto simp: POST_mock_randomUUID_def NextResponse_json_def)

lemma as_string_Some: "as_string v = Some p \<longleftrightarrow> v = Some (JStr p)"
  by (cases v rule: as_string.cases) auto

lemma mock_generateId_200:
  assumes "status (POST_mock_generateId e req) = 200"
  shows "\<exists>body p. req = JSON body \<and> get_field body (js ''prompt'') = Inr (Some (JStr p)) \<and> trim p \<noteq> []"
  using assms
  by (cases req)
     (auto simp: POST_mock_generateId_def NextResponse_json_def internal_error_def as_string_Some Let_def
           split: sum.splits option.splits if_splits)

lemma mock_randomUUID_200:
  assumes "status (POST_mock_randomUUID e req) = 200"
  shows "\<exists>body p u. req = JSON body \<and> get_field body (js ''prompt'') = Inr (Some (JStr p)) \<and> trim p \<noteq> []
     \<and> crypto_randomUUID e = Some u"
  using assms
  by (cases req)
     (auto simp: POST_mock_randomUUID_def NextResponse_json_def internal_error_def as_string_Some Let_def
           split: sum.splits option.splits if_splits)

lemma sample_get_prompt:
  "get_field (mock_body ms p) (js ''prompt'') = Inr (Some (JStr p))"
  by (simp add: mock_body_def js_def)

lemma trim_hello_world: "trim (js ''hello world'') = js ''hello world''"
  by (simp add: trim_def js_def is_ws_def)

lemma trim_abc: "trim (js ''abc'') = js ''abc''"
  by (simp add: trim_def js_def is_ws_def)

lemma trim_padded_abc: "trim (js '' abc '') = js ''abc''"
  by (simp add: trim_def js_def is_ws_def)

lemma wordCount_hello_world: "wordCount_of (js ''hello world'') = 2"
  by (simp add: wordCount_of_def split_ws_def js_def is_ws_def Boolean_str_def)

lemma wordCount_abc: "wordCount_of (js ''abc'') = 1"
  by (simp add: wordCount_of_def split_ws_def js_def is_ws_def Boolean_str_def)

lemma length_samples:
  "length (js ''hello world'') = 11" "length (js ''abc'') = 3"
  by (simp_all add: js_def)

lemma Number_toString_small:
  "Number_toString 1 = js ''1''" "Number_toString 2 = js ''2''" "Number_toString 3 = js ''3''"
  "Number_toString 11 = js ''11''"
  by (simp_all add: Number_toString_def toString_radix.simps digit_char_def js_def)

lemma replyContent_abc:
  \<open>replyContent (js ''abc'') 1 3 =
     js ''You said: "abc"\<newline>\<newline>Here is a simple analysis of your message:\<newline>- Approximate word count: 1\<newline>- Character count (including spaces): 3\<newline>\<newline>This is mini, a mock AI assistant. Replace the logic in /app/api/chat/route.ts with a real LLM API call (OpenAI, Gemini, etc.) to get smarter responses.''\<close>
  unfolding replyContent_def Number_toString_small by (simp add: js_def)

lemma token_count_padded_abc: "token_count (js '' abc '') = 1"
  unfolding wordCount_trim[symmetric] trim_padded_abc by (rule wordCount_abc)

section \<open>The provider handler: validation and dispatch\<close>

lemma js_neq [simp]:
  "js ''openai'' \<noteq> []" "js ''gemini'' \<noteq> []" "js ''openai'' \<noteq> js ''gemini''"
  "js ''gemini'' \<noteq> js ''openai''"
  by (simp_all add: js_def)

lemma get_field_not_null: "m \<noteq> JNull \<Longrightarrow> \<exists>v. get_field m k = Inr v"
  by (cases m) auto

lemma get_field_Some_truthy: "get_field m k = Inr (Some v) \<Longrightarrow> truthy (Some m)"
  by (cases m) auto

lemma find_user_none:
  "\<forall>m\<in>set ms. m \<noteq> JNull \<and> get_field m (js ''role'') \<noteq> Inr (Some (JStr (js ''user''))) \<Longrightarrow>
   find_user ms = Inr None"
proof (induction ms)
  case Nil
  then show ?case by simp
next
  case (Cons m ms)
  then obtain v where "get_field m (js ''role'') = Inr v"
    using get_field_not_null[of m] by auto
  with Cons show ?case by auto
qed

lemma find_user_some:
  "\<forall>m\<in>set ms. m \<noteq> JNull \<Longrightarrow>
   \<exists>m\<in>set ms. get_field m (js ''role'') = Inr (Some (JStr (js ''user''))) \<Longrightarrow>
   \<exists>u. find_user ms = Inr (Some u) \<and> truthy (Some u)"
proof (induction ms)
  case Nil
  then show ?case by simp
next
  case (Cons m ms)
  then obtain v where v: "get_field m (js ''role'') = Inr v"
    using get_field_not_null[of m] by auto
  show ?case
  proof (cases "v = Some (JStr (js ''user''))")
    case True
    with v show ?thesis by (auto dest: get_field_Some_truthy)
  next
    case False
    with v Cons show ?thesis by auto
  qed
qed

lemma provider_dispatch:
  assumes "get_field body (js ''provider'') = Inr (Some (JStr pv))"
    and "pv = js ''openai'' \<or> pv = js ''gemini''"
    and "get_field body (js ''messages'') = Inr (Some (JArr ms))"
    and "ms \<noteq> []"
    and "find_user (rev ms) = Inr (Some u)" and "truthy (Some u)"
  shows "POST_provider e (JSON body) =
     (if pv = js ''openai'' then openai_branch e ms else gemini_branch e ms)"
  using assms by (auto simp: POST_provider_def)

lemma openai_branch_called:
  assumes "openai_branch e ms = (r, calls)" and "calls = [OpenAI_call k rq]"
  shows "r = (case chat_completions_create e k rq of
             Inl ex \<Rightarrow> internal_error
           | Inr c \<Rightarrow> \<lparr>status = 200, payload = Message \<lparr>msg_id = generateId e, role = Assistant,
                 content = first_content c, createdAt = Date_toISOString e\<rparr>\<rparr>)"
  using assms
  by (auto simp: openai_branch_def NextResponse_json_def Let_def
           split: option.splits sum.splits)

lemma openai_branch_shape:
  assumes "openai_branch e ms = (r, calls)"
  shows "(calls = [] \<and> status r = 500 \<and> (\<exists>s. payload r = Error s)) \<or>
         (\<exists>k rq. calls = [OpenAI_call k rq])"
  using assms
  by (auto simp: openai_branch_def NextResponse_json_def internal_error_def Let_def
           split: option.splits sum.splits)

lemma gemini_branch_called:
  assumes "gemini_branch e ms = (r, calls)" and "calls = [Gemini_call k rq]"
  shows "r = (case generateContent_text e k rq of
             Inl ex \<Rightarrow> internal_error
           | Inr t \<Rightarrow> \<lparr>status = 200, payload = Message \<lparr>msg_id = generateId e, role = Assistant,
                 content = responseText_of t, createdAt = Date_toISOString e\<rparr>\<rparr>)"
  using assms
  by (auto simp: gemini_branch_def NextResponse_json_def Let_def
           split: option.splits sum.splits)

lemma gemini_branch_shape:
  assumes "gemini_branch e ms = (r, calls)"
  shows "(calls = [] \<and> status r = 500 \<and> (\<exists>s. payload r = Error s)) \<or>
         (\<exists>k rq. calls = [Gemini_call k rq])"
  using assms
  by (auto simp: gemini_branch_def NextResponse_json_def internal_error_def Let_def
           split: option.splits sum.splits)

lemma provider_cases:
  "POST_provider e req = (r, calls) \<Longrightarrow>
   (calls = [] \<and> (status r = 400 \<or> status r = 500) \<and> (\<exists>s. payload r = Error s)) \<or>
   (\<exists>ms. openai_branch e ms = (r, calls)) \<or> (\<exists>ms. gemini_branch e ms = (r, calls))"
  by (cases req)
     (auto simp: POST_provider_def NextResponse_json_def internal_error_def
           split: option.splits sum.splits if_splits)

lemma provider_get: 
  "get_field (provider_body pv ms) (js ''provider'') = Inr (Some (JStr pv))"
  "get_field (provider_body pv ms) (js ''messages'') = Inr (Some (JArr ms))"
  by (simp_all add: provider_body_def js_def)

lemma sample_chat_valid:
  "\<forall>m\<in>set sample_chat. m \<noteq> JNull"
  "\<exists>m\<in>set sample_chat. get_field m (js ''role'') = Inr (Some (JStr (js ''user'')))"
  by (simp_all add: sample_chat_def js_def)

lemma sample_chat_find_user:
  "find_user (rev sample_chat) = Inr (Some (hd sample_chat))" "truthy (Some (hd sample_chat))"
  "sample_chat \<noteq> []"
  by (simp_all add: sample_chat_def js_def)

lemma sample_env_openai_fields:
  "OPENAI_API_KEY (sample_env_openai c) = Some (js ''sk-test'')"
  "chat_completions_create (sample_env_openai c) k rq =
     Inr (Completion [Choice (Some (CompletionMessage c))])"
  "crypto_randomUUID (sample_env_openai c) = Some (js ''3b241101-e2bb-4255-8caf-4136c566a962'')"
  "Date_toISOString (sample_env_openai c) = js ''2023-11-14T22:13:20.000Z''"
  by (simp_all add: sample_env_openai_def sample_env_def)

lemma sample_openai_map:
  "openai_map sample_chat = Inr [\<lparr>om_role = js ''user'', om_content = Some (JStr (js ''hi''))\<rparr>]"
  by (simp add: sample_chat_def js_def)

lemma sample_openai_run:
  "POST_provider (sample_env_openai c) (JSON (provider_body (js ''openai'') sample_chat)) =
     (\<lparr>status = 200,
       payload = Message
         \<lparr>msg_id = js ''3b241101-e2bb-4255-8caf-4136c566a962'', role = Assistant,
          content = first_content (Completion [Choice (Some (CompletionMessage c))]),
          createdAt = js ''2023-11-14T22:13:20.000Z''\<rparr>\<rparr>,
      [OpenAI_call (js ''sk-test'') sample_openai_request])"
proof -
  have "POST_provider (sample_env_openai c) (JSON (provider_body (js ''openai'') sample_chat)) =
      openai_branch (sample_env_openai c) sample_chat"
    using provider_dispatch[OF provider_get(1) _ provider_get(2) sample_chat_find_user(3)
        sample_chat_find_user(1,2), of "js ''openai''" "sample_env_openai c"]
    by simp
  moreover have "js ''sk-test'' \<noteq> []" by (simp add: js_def)
  ultimately show ?thesis
    by (simp add: openai_branch_def getOpenAIClient_def sample_env_openai_fields
          sample_openai_map sample_openai_request_def OPENAI_MODEL_def systemPrompt_def
          NextResponse_json_def generateId_def)
qed

lemma sample_env_gemini_fields:
  "GOOGLE_API_KEY (sample_env_gemini t) = Some (js ''g-test'')"
  "generateContent_text (sample_env_gemini t) k rq = Inr t"
  "crypto_randomUUID (sample_env_gemini t) = Some (js ''3b241101-e2bb-4255-8caf-4136c566a962'')"
  "Date_toISOString (sample_env_gemini t) = js ''2023-11-14T22:13:20.000Z''"
  by (simp_all add: sample_env_gemini_def sample_env_def)

lemma sample_gemini_map:
  "gemini_map (sample_env_gemini t) sample_chat = Inr [js ''USER: hi'']"
  by (simp add: sample_chat_def sample_env_gemini_def sample_env_def js_def)

lemma sample_gemini_run:
  "POST_provider (sample_env_gemini t) (JSON (provider_body (js ''gemini'') sample_chat)) =
     (\<lparr>status = 200,
       payload = Message
         \<lparr>msg_id = js ''3b241101-e2bb-4255-8caf-4136c566a962'', role = Assistant,
          content = responseText_of t,
          createdAt = js ''2023-11-14T22:13:20.000Z''\<rparr>\<rparr>,
      [Gemini_call (js ''g-test'') sample_gemini_request])"
proof -
  have "POST_provider (sample_env_gemini t) (JSON (provider_body (js ''gemini'') sample_chat)) =
      gemini_branch (sample_env_gemini t) sample_chat"
    using provider_dispatch[OF provider_get(1) _ provider_get(2) sample_chat_find_user(3)
        sample_chat_find_user(1,2), of "js ''gemini''" "sample_env_gemini t"]
    by simp
  moreover have "js ''g-test'' \<noteq> []" by (simp add: js_def)
  ultimately show ?thesis
    by (simp add: gemini_branch_def getGeminiClient_def sample_env_gemini_fields
          sample_gemini_map sample_gemini_request_def GEMINI_MODEL_def systemPrompt_def
          NextResponse_json_def generateId_def)
qed

lemma sample_env_later_differs:
  "crypto_randomUUID sample_env_later \<noteq> crypto_randomUUID sample_env"
  by (simp add: sample_env_later_def sample_env_def js_def)

lemma assistant_only_chat_roles:
  "\<forall>m\<in>set assistant_only_chat.
     m \<noteq> JNull \<and> get_field m (js ''role'') \<noteq> Inr (Some (JStr (js ''user'')))"
  by (simp add: assistant_only_chat_def js_def)

lemma sample_env_uuid:
  "crypto_randomUUID sample_env = Some (js ''3b241101-e2bb-4255-8caf-4136c566a962'')"
  by (simp add: sample_env_def)

section \<open>Claims\<close>

subsection \<open>C1: the mock reply embeds the prompt and its counts\<close>

text \<open>
  C1. For a mock request whose prompt is a string that is not blank, the response has
  status 200 and its message text starts with \<open>You said: \<close> followed by the trimmed
  prompt in double quotes, and contains the word count and the character count of the
  trimmed prompt on their lines of the template.  For the prompt \<open>hello world\<close> (with
  any messages array) the counts are 2 and 11; for the body with prompt \<open>abc\<close> and an
  empty messages array the text starts with \<open>You said: "abc"\<close> and the counts are 1
  and 3.  The second handler does so on every platform; the first handler calls
  \<open>crypto.randomUUID()\<close> unguarded and does so where the platform provides it.
\<close>

theorem mock_reply_embeds_prompt_and_counts:
  "(get_field body (js ''prompt'') = Inr (Some (JStr p)) \<and> trim p \<noteq> [] \<longrightarrow>
      embeds_counts (trim p) (Number_toString (wordCount_of (trim p)))
        (Number_toString (length (trim p))) (POST_mock_generateId e (JSON body)) \<and>
      (crypto_randomUUID e \<noteq> None \<longrightarrow>
         embeds_counts (trim p) (Number_toString (wordCount_of (trim p)))
           (Number_toString (length (trim p))) (POST_mock_randomUUID e (JSON body)))) \<and>
   embeds_counts (js ''hello world'') (js ''2'') (js ''11'')
     (POST_mock_generateId e (JSON (mock_body ms (js ''hello world'')))) \<and>
   embeds_counts (js ''abc'') (js ''1'') (js ''3'')
     (POST_mock_generateId e (JSON (mock_body [] (js ''abc'')))) \<and>
   (crypto_randomUUID e \<noteq> None \<longrightarrow>
      embeds_counts (js ''hello world'') (js ''2'') (js ''11'')
        (POST_mock_randomUUID e (JSON (mock_body ms (js ''hello world'')))) \<and>
      embeds_counts (js ''abc'') (js ''1'') (js ''3'')
        (POST_mock_randomUUID e (JSON (mock_body [] (js ''abc'')))))"
proof -
  have gen: "embeds_counts (trim q) (Number_toString (wordCount_of (trim q)))
        (Number_toString (length (trim q))) (POST_mock_generateId e (JSON b))"
    if "get_field b (js ''prompt'') = Inr (Some (JStr q))" and "trim q \<noteq> []" for b q
    using that by (simp add: mock_generateId_accept replyContent_embeds)
  have uuid: "embeds_counts (trim q) (Number_toString (wordCount_of (trim q)))
        (Number_toString (length (trim q))) (POST_mock_randomUUID e (JSON b))"
    if "get_field b (js ''prompt'') = Inr (Some (JStr q))" and "trim q \<noteq> []"
      and "crypto_randomUUID e \<noteq> None" for b q
  proof -
    from that(3) obtain u where "crypto_randomUUID e = Some u" by auto
    with that show ?thesis by (simp add: mock_randomUUID_accept replyContent_embeds)
  qed
  have hw: "trim (js ''hello world'') \<noteq> []" and abc: "trim (js ''abc'') \<noteq> []"
    unfolding trim_hello_world trim_abc by (simp_all add: js_def)
  have g1: "embeds_counts (js ''hello world'') (js ''2'') (js ''11'')
      (POST_mock_generateId e (JSON (mock_body ms (js ''hello world''))))"
    using gen[OF sample_get_prompt hw, of ms]
    by (simp only: trim_hello_world wordCount_hello_world length_samples Number_toString_small)
  have g2: "embeds_counts (js ''abc'') (js ''1'') (js ''3'')
      (POST_mock_generateId e (JSON (mock_body [] (js ''abc''))))"
    using gen[OF sample_get_prompt abc, of "[]"]
    by (simp only: trim_abc wordCount_abc length_samples Number_toString_small)
  have u1: "embeds_counts (js ''hello world'') (js ''2'') (js ''11'')
      (POST_mock_randomUUID e (JSON (mock_body ms (js ''hello world''))))"
    if "crypto_randomUUID e \<noteq> None"
    using uuid[OF sample_get_prompt hw that, of ms]
    by (simp only: trim_hello_world wordCount_hello_world length_samples Number_toString_small)
  have u2: "embeds_counts (js ''abc'') (js ''1'') (js ''3'')
      (POST_mock_randomUUID e (JSON (mock_body [] (js ''abc''))))"
    if "crypto_randomUUID e \<noteq> None"
    using uuid[OF sample_get_prompt abc that, of "[]"]
    by (simp only: trim_abc wordCount_abc length_samples Number_toString_small)
  show ?thesis
    using gen uuid g1 g2 u1 u2 by blast
qed

text \<open>The theorem at a prompt with surrounding and doubled blanks.\<close>

theorem mock_reply_embeds_prompt_and_counts_witness:
  "embeds_counts (js ''two  words'') (js ''2'') (js ''10'')
     (POST_mock_generateId sample_env (JSON (mock_body sample_chat (js ''  two  words '')))) \<and>
   embeds_counts (js ''two  words'') (js ''2'') (js ''10'')
     (POST_mock_randomUUID sample_env (JSON (mock_body sample_chat (js ''  two  words ''))))"
proof -
  have t: "trim (js ''  two  words '') = js ''two  words''"
    by (simp add: trim_def js_def is_ws_def)
  have w: "wordCount_of (js ''two  words'') = 2"
    by (simp add: wordCount_of_def split_ws_def js_def is_ws_def Boolean_str_def)
  have n: "Number_toString 2 = js ''2''" "Number_toString 10 = js ''10''"
    by (simp_all add: Number_toString_def toString_radix.simps digit_char_def js_def)
  have ne: "js ''two  words'' \<noteq> []" and l: "length (js ''two  words'') = 10"
    by (simp_all add: js_def)
  show ?thesis
    using mock_reply_embeds_prompt_and_counts
      [of "mock_body sample_chat (js ''  two  words '')" "js ''  two  words ''" sample_env "[]"]
    by (simp add: sample_get_prompt t w n ne l sample_env_uuid)
qed

subsection \<open>C2: rejection of requests without usable messages\<close>

text \<open>
  C2 (as amended).  In the provider handler, for every body on which property reads
  succeed, if the \<open>messages\<close> field is not an array, or is the empty array, or is an
  array without \<open>null\<close> entries none of which has role \<open>user\<close>, the response has
  status 400 with a non-empty error string, and no outbound call is made.
\<close>

theorem provider_rejects_bad_messages:
  "get_field body (js ''messages'') = Inr msgs \<and>
   (as_array msgs = None \<or> as_array msgs = Some [] \<or>
    (\<exists>ms. as_array msgs = Some ms \<and>
       (\<forall>m\<in>set ms. m \<noteq> JNull \<and> get_field m (js ''role'') \<noteq> Inr (Some (JStr (js ''user''))))))
   \<longrightarrow> bad_request (fst (POST_provider e (JSON body))) \<and> snd (POST_provider e (JSON body)) = []"
proof (intro impI, elim conjE)
  assume m: "get_field body (js ''messages'') = Inr msgs"
    and bad: "as_array msgs = None \<or> as_array msgs = Some [] \<or>
      (\<exists>ms. as_array msgs = Some ms \<and>
       (\<forall>m\<in>set ms. m \<noteq> JNull \<and> get_field m (js ''role'') \<noteq> Inr (Some (JStr (js ''user'')))))"
  from m have "body \<noteq> JNull" by auto
  then obtain v where v: "get_field body (js ''provider'') = Inr v"
    using get_field_not_null by blast
  have fu: "find_user (rev ms) = Inr None"
    if "\<forall>m\<in>set ms. m \<noteq> JNull \<and> get_field m (js ''role'') \<noteq> Inr (Some (JStr (js ''user'')))" for ms
    using that by (intro find_user_none) simp
  from bad show "bad_request (fst (POST_provider e (JSON body))) \<and> snd (POST_provider e (JSON body)) = []"
    using m v fu
    by (auto simp: POST_provider_def NextResponse_json_def bad_request_def js_def)
qed

text \<open>The theorem at the provider body with an empty messages array.\<close>

theorem provider_rejects_bad_messages_witness:
  "bad_request (fst (POST_provider sample_env (JSON (provider_body (js ''openai'') [])))) \<and>
   snd (POST_provider sample_env (JSON (provider_body (js ''openai'') []))) = [] \<and>
   bad_request (fst (POST_provider sample_env (JSON (JObj [(js ''provider'', JStr (js ''gemini''))])))) \<and>
   snd (POST_provider sample_env (JSON (JObj [(js ''provider'', JStr (js ''gemini''))]))) = [] \<and>
   bad_request (fst (POST_provider sample_env
      (JSON (provider_body (js ''openai'') assistant_only_chat)))) \<and>
   snd (POST_provider sample_env (JSON (provider_body (js ''openai'') assistant_only_chat))) = []"
proof -
  have m: "get_field (JObj [(js ''provider'', JStr (js ''gemini''))]) (js ''messages'') = Inr None"
    by (simp add: js_def)
  have 1: "bad_request (fst (POST_provider sample_env (JSON (provider_body (js ''openai'') [])))) \<and>
      snd (POST_provider sample_env (JSON (provider_body (js ''openai'') []))) = []"
    using provider_rejects_bad_messages
        [of "provider_body (js ''openai'') []" "Some (JArr [])" sample_env]
    by (simp add: provider_get)
  have 2: "bad_request (fst (POST_provider sample_env
        (JSON (JObj [(js ''provider'', JStr (js ''gemini''))])))) \<and>
      snd (POST_provider sample_env (JSON (JObj [(js ''provider'', JStr (js ''gemini''))]))) = []"
    using provider_rejects_bad_messages
        [of "JObj [(js ''provider'', JStr (js ''gemini''))]" None sample_env] m
    by simp
  have 3: "bad_request (fst (POST_provider sample_env
        (JSON (provider_body (js ''openai'') assistant_only_chat)))) \<and>
      snd (POST_provider sample_env (JSON (provider_body (js ''openai'') assistant_only_chat))) = []"
    using provider_rejects_bad_messages
        [of "provider_body (js ''openai'') assistant_only_chat"
            "Some (JArr assistant_only_chat)" sample_env]
      assistant_only_chat_roles
    by (simp add: provider_get)
  from 1 2 3 show ?thesis by simp
qed

text \<open>
  The claim as stated covers both variants of the dispatcher.  The mock handlers never
  read \<open>messages\<close>: the body with prompt \<open>abc\<close> and an empty messages array gets 200.
\<close>

theorem mock_accepts_empty_messages_counterexample:
  "get_field (mock_body [] (js ''abc'')) (js ''messages'') = Inr (Some (JArr [])) \<and>
   status (POST_mock_generateId sample_env (JSON (mock_body [] (js ''abc'')))) = 200 \<and>
   status (POST_mock_randomUUID sample_env (JSON (mock_body [] (js ''abc'')))) = 200"
proof -
  have p: "get_field (mock_body [] (js ''abc'')) (js ''prompt'') = Inr (Some (JStr (js ''abc'')))"
    by (simp add: mock_body_def js_def)
  have t: "trim (js ''abc'') \<noteq> []"
    by (simp add: trim_def js_def is_ws_def)
  have u: "crypto_randomUUID sample_env = Some (js ''3b241101-e2bb-4255-8caf-4136c566a962'')"
    by (simp add: sample_env_def)
  show ?thesis
    by (simp add: mock_generateId_accept[OF p t] mock_randomUUID_accept[OF p t u])
       (simp add: mock_body_def js_def)
qed

subsection \<open>C3: a body that is not JSON\<close>

text \<open>
  C3 (as amended).  For a request whose body is not parseable JSON, \<open>req.json()\<close>
  throws inside the \<open>try\<close>, and each of the three handlers responds with status 500 and
  the error string \<open>Internal server error\<close>; the provider handler makes no outbound
  call.
\<close>

theorem unparseable_body_500:
  "POST_provider e NotJSON = (\<lparr>status = 500, payload = Error (js ''Internal server error'')\<rparr>, []) \<and>
   POST_mock_randomUUID e NotJSON = \<lparr>status = 500, payload = Error (js ''Internal server error'')\<rparr> \<and>
   POST_mock_generateId e NotJSON = \<lparr>status = 500, payload = Error (js ''Internal server error'')\<rparr>"
  by (simp add: POST_provider_def POST_mock_randomUUID_def POST_mock_generateId_def
        internal_error_def NextResponse_json_def)

text \<open>The theorem at the sample environment.\<close>

theorem unparseable_body_500_witness:
  "POST_provider sample_env NotJSON = (\<lparr>status = 500, payload = Error (js ''Internal server error'')\<rparr>, []) \<and>
   POST_mock_randomUUID sample_env NotJSON = \<lparr>status = 500, payload = Error (js ''Internal server error'')\<rparr> \<and>
   POST_mock_generateId sample_env NotJSON = \<lparr>status = 500, payload = Error (js ''Internal server error'')\<rparr>"
  using unparseable_body_500 [of sample_env] by simp

text \<open>The status for a body that is not JSON is not 400, in any of the handlers.\<close>

theorem unparseable_body_400_counterexample:
  "status (fst (POST_provider sample_env NotJSON)) \<noteq> 400 \<and>
   status (POST_mock_randomUUID sample_env NotJSON) \<noteq> 400 \<and>
   status (POST_mock_generateId sample_env NotJSON) \<noteq> 400"
  by (simp add: POST_provider_def POST_mock_randomUUID_def POST_mock_generateId_def
        internal_error_def NextResponse_json_def)

subsection \<open>C4: a missing required field\<close>

text \<open>
  C4 (as amended).  A request whose body is a JSON value other than \<open>null\<close> and lacks
  a required field (reading the field gives \<open>undefined\<close>) is answered with status 400
  and a non-empty error string: \<open>prompt\<close> in the two mock handlers, \<open>provider\<close> or
  \<open>messages\<close> in the provider handler.
\<close>

theorem missing_field_400:
  "body \<noteq> JNull \<longrightarrow>
   (get_field body (js ''prompt'') = Inr None \<longrightarrow>
      bad_request (POST_mock_randomUUID e (JSON body)) \<and>
      bad_request (POST_mock_generateId e (JSON body))) \<and>
   (get_field body (js ''provider'') = Inr None \<or> get_field body (js ''messages'') = Inr None \<longrightarrow>
      bad_request (fst (POST_provider e (JSON body))))"
proof (intro conjI impI)
  assume "get_field body (js ''prompt'') = Inr None"
  then show "bad_request (POST_mock_randomUUID e (JSON body))"
    and "bad_request (POST_mock_generateId e (JSON body))"
    by (simp_all add: mock_randomUUID_reject mock_generateId_reject bad_request_def js_def)
next
  assume nn: "body \<noteq> JNull"
  then obtain v where v: "get_field body (js ''provider'') = Inr v"
    using get_field_not_null by blast
  assume "get_field body (js ''provider'') = Inr None \<or> get_field body (js ''messages'') = Inr None"
  then show "bad_request (fst (POST_provider e (JSON body)))"
  proof
    assume "get_field body (js ''provider'') = Inr None"
    then show ?thesis
      by (simp add: POST_provider_def NextResponse_json_def bad_request_def js_def)
  next
    assume m: "get_field body (js ''messages'') = Inr None"
    with v show ?thesis
      by (simp add: POST_provider_def NextResponse_json_def bad_request_def js_def)
  qed
qed

text \<open>
  The theorem at the empty object, which lacks every field, at an object with a provider
  only, and at an empty array as body.
\<close>

theorem missing_field_400_witness:
  "JObj [] \<noteq> JNull \<and>
   get_field (JObj []) (js ''prompt'') = Inr None \<and>
   bad_request (POST_mock_randomUUID sample_env (JSON (JObj []))) \<and>
   bad_request (POST_mock_generateId sample_env (JSON (JObj []))) \<and>
   get_field (JObj []) (js ''provider'') = Inr None \<and>
   bad_request (fst (POST_provider sample_env (JSON (JObj [])))) \<and>
   get_field (JObj [(js ''provider'', JStr (js ''openai''))]) (js ''messages'') = Inr None \<and>
   bad_request (fst (POST_provider sample_env (JSON (JObj [(js ''provider'', JStr (js ''openai''))])))) \<and>
   get_field (JArr []) (js ''prompt'') = Inr None \<and>
   bad_request (POST_mock_generateId sample_env (JSON (JArr [])))"
proof -
  have m: "get_field (JObj [(js ''provider'', JStr (js ''openai''))]) (js ''messages'') = Inr None"
    by (simp add: js_def)
  show ?thesis
    using missing_field_400 [of "JObj []" sample_env]
      missing_field_400 [of "JObj [(js ''provider'', JStr (js ''openai''))]" sample_env] m
      missing_field_400 [of "JArr []" sample_env]
    by simp
qed

text \<open>
  A body that is \<open>null\<close> has none of the fields, and reading a field from it throws:
  each handler answers 500, not 400.
\<close>

theorem null_body_500_counterexample:
  "status (POST_mock_randomUUID sample_env (JSON JNull)) = 500 \<and>
   status (POST_mock_generateId sample_env (JSON JNull)) = 500 \<and>
   status (fst (POST_provider sample_env (JSON JNull))) = 500 \<and>
   \<not> bad_request (POST_mock_randomUUID sample_env (JSON JNull)) \<and>
   \<not> bad_request (POST_mock_generateId sample_env (JSON JNull)) \<and>
   \<not> bad_request (fst (POST_provider sample_env (JSON JNull)))"
  by (simp add: POST_mock_randomUUID_def POST_mock_generateId_def POST_provider_def
        internal_error_def NextResponse_json_def bad_request_def)

subsection \<open>C5: a missing credential\<close>

text \<open>
  C5.  When the credential of the selected provider is absent (or empty), a request that
  passes validation (the messages are an array without \<open>null\<close> entries, one of them
  with role \<open>user\<close>) is answered with status 500 and the error string that names the
  missing credential, and no outbound call is made, whatever the messages contain
  otherwise.
\<close>

theorem missing_credential_500:
  "get_field body (js ''messages'') = Inr (Some (JArr ms)) \<and>
   (\<forall>m\<in>set ms. m \<noteq> JNull) \<and>
   (\<exists>m\<in>set ms. get_field m (js ''role'') = Inr (Some (JStr (js ''user'')))) \<longrightarrow>
   (get_field body (js ''provider'') = Inr (Some (JStr (js ''openai''))) \<and>
    (OPENAI_API_KEY e = None \<or> OPENAI_API_KEY e = Some []) \<longrightarrow>
      POST_provider e (JSON body) =
        (\<lparr>status = 500,
          payload = Error (js ''OPENAI_API_KEY is not configured on the server'')\<rparr>, [])) \<and>
   (get_field body (js ''provider'') = Inr (Some (JStr (js ''gemini''))) \<and>
    (GOOGLE_API_KEY e = None \<or> GOOGLE_API_KEY e = Some []) \<longrightarrow>
      POST_provider e (JSON body) =
        (\<lparr>status = 500,
          payload = Error (js ''GOOGLE_API_KEY is not configured on the server'')\<rparr>, []))"
proof (intro impI, elim conjE)
  assume m: "get_field body (js ''messages'') = Inr (Some (JArr ms))"
    and nn: "\<forall>m\<in>set ms. m \<noteq> JNull"
    and us: "\<exists>m\<in>set ms. get_field m (js ''role'') = Inr (Some (JStr (js ''user'')))"
  from us have ne: "ms \<noteq> []" by auto
  from nn us obtain u where u: "find_user (rev ms) = Inr (Some u)" "truthy (Some u)"
    using find_user_some[of "rev ms"] by auto
  have o: "POST_provider e (JSON body) =
        (\<lparr>status = 500,
          payload = Error (js ''OPENAI_API_KEY is not configured on the server'')\<rparr>, [])"
    if "get_field body (js ''provider'') = Inr (Some (JStr (js ''openai'')))"
      and "OPENAI_API_KEY e = None \<or> OPENAI_API_KEY e = Some []"
    using that provider_dispatch[OF that(1) _ m ne u]
    by (auto simp: openai_branch_def getOpenAIClient_def NextResponse_json_def)
  have g: "POST_provider e (JSON body) =
        (\<lparr>status = 500,
          payload = Error (js ''GOOGLE_API_KEY is not configured on the server'')\<rparr>, [])"
    if "get_field body (js ''provider'') = Inr (Some (JStr (js ''gemini'')))"
      and "GOOGLE_API_KEY e = None \<or> GOOGLE_API_KEY e = Some []"
    using that provider_dispatch[OF that(1) _ m ne u]
    by (auto simp: gemini_branch_def getGeminiClient_def NextResponse_json_def)
  from o g show "(get_field body (js ''provider'') = Inr (Some (JStr (js ''openai''))) \<and>
    (OPENAI_API_KEY e = None \<or> OPENAI_API_KEY e = Some []) \<longrightarrow>
      POST_provider e (JSON body) =
        (\<lparr>status = 500,
          payload = Error (js ''OPENAI_API_KEY is not configured on the server'')\<rparr>, [])) \<and>
   (get_field body (js ''provider'') = Inr (Some (JStr (js ''gemini''))) \<and>
    (GOOGLE_API_KEY e = None \<or> GOOGLE_API_KEY e = Some []) \<longrightarrow>
      POST_provider e (JSON body) =
        (\<lparr>status = 500,
          payload = Error (js ''GOOGLE_API_KEY is not configured on the server'')\<rparr>, []))"
    by blast
qed

text \<open>The theorem at the sample conversation, for each provider.\<close>

theorem missing_credential_500_witness:
  "OPENAI_API_KEY sample_env = None \<and>
   POST_provider sample_env (JSON (provider_body (js ''openai'') sample_chat)) =
     (\<lparr>status = 500,
       payload = Error (js ''OPENAI_API_KEY is not configured on the server'')\<rparr>, []) \<and>
   GOOGLE_API_KEY (sample_env_openai None) = None \<and>
   POST_provider (sample_env_openai None) (JSON (provider_body (js ''gemini'') sample_chat)) =
     (\<lparr>status = 500,
       payload = Error (js ''GOOGLE_API_KEY is not configured on the server'')\<rparr>, [])"
proof -
  have k: "OPENAI_API_KEY sample_env = None" "GOOGLE_API_KEY (sample_env_openai None) = None"
    by (simp_all add: sample_env_def sample_env_openai_def)
  show ?thesis
    using missing_credential_500
        [of "provider_body (js ''openai'') sample_chat" sample_chat sample_env]
      missing_credential_500
        [of "provider_body (js ''gemini'') sample_chat" sample_chat "sample_env_openai None"]
    by (simp add: provider_get sample_chat_valid k)
qed

subsection \<open>C6: what the two counts count\<close>

text \<open>
  C6 (as amended).  For every prompt the mock responder accepts, the reply text contains
  the character-count line with the decimal rendering of the length of the trimmed
  prompt, that is the raw length less the leading and the trailing whitespace, and the
  word-count line with the decimal rendering of the number of whitespace-delimited
  tokens of the prompt; each rendering reads back as that number.
\<close>

theorem mock_counts_of_trimmed_prompt:
  "get_field body (js ''prompt'') = Inr (Some (JStr p)) \<and> trim p \<noteq> [] \<longrightarrow>
     length (trim p) + length (takeWhile is_ws p) + length (takeWhile is_ws (rev p)) = length p \<and>
     decimal_value (Number_toString (token_count p)) = token_count p \<and>
     decimal_value (Number_toString (length (trim p))) = length (trim p) \<and>
     embeds_counts (trim p) (Number_toString (token_count p)) (Number_toString (length (trim p)))
       (POST_mock_generateId e (JSON body)) \<and>
     (crypto_randomUUID e \<noteq> None \<longrightarrow>
        embeds_counts (trim p) (Number_toString (token_count p)) (Number_toString (length (trim p)))
          (POST_mock_randomUUID e (JSON body)))"
proof (intro impI, elim conjE, intro conjI impI)
  assume g: "get_field body (js ''prompt'') = Inr (Some (JStr p))" and t: "trim p \<noteq> []"
  show "length (trim p) + length (takeWhile is_ws p) + length (takeWhile is_ws (rev p)) = length p"
    using t by (rule length_trim)
  show "decimal_value (Number_toString (token_count p)) = token_count p"
    and "decimal_value (Number_toString (length (trim p))) = length (trim p)"
    by (rule decimal_value_Number_toString)+
  show "embeds_counts (trim p) (Number_toString (token_count p)) (Number_toString (length (trim p)))
       (POST_mock_generateId e (JSON body))"
    unfolding mock_generateId_accept[OF g t] wordCount_trim by (rule replyContent_embeds)
  assume "crypto_randomUUID e \<noteq> None"
  then obtain u where u: "crypto_randomUUID e = Some u" by auto
  show "embeds_counts (trim p) (Number_toString (token_count p)) (Number_toString (length (trim p)))
          (POST_mock_randomUUID e (JSON body))"
    unfolding mock_randomUUID_accept[OF g t u] wordCount_trim by (rule replyContent_embeds)
qed

text \<open>The theorem at the prompt \<open>abc\<close> with a blank on each side.\<close>

theorem mock_counts_of_trimmed_prompt_witness:
  "length (js '' abc '') = 5 \<and>
   decimal_value (js ''1'') = 1 \<and> decimal_value (js ''3'') = 3 \<and>
   embeds_counts (js ''abc'') (js ''1'') (js ''3'')
     (POST_mock_generateId sample_env (JSON (mock_body [] (js '' abc '')))) \<and>
   embeds_counts (js ''abc'') (js ''1'') (js ''3'')
     (POST_mock_randomUUID sample_env (JSON (mock_body [] (js '' abc ''))))"
proof -
  have t: "trim (js '' abc '') \<noteq> []" unfolding trim_padded_abc by (simp add: js_def)
  have l: "length (js '' abc '') = 5" by (simp add: js_def)
  have u: "crypto_randomUUID sample_env \<noteq> None" by (simp add: sample_env_uuid)
  have "embeds_counts (js ''abc'') (js ''1'') (js ''3'')
       (POST_mock_generateId sample_env (JSON (mock_body [] (js '' abc '')))) \<and>
     embeds_counts (js ''abc'') (js ''1'') (js ''3'')
       (POST_mock_randomUUID sample_env (JSON (mock_body [] (js '' abc ''))))"
    using mock_counts_of_trimmed_prompt
      [of "mock_body [] (js '' abc '')" "js '' abc ''" sample_env] t u sample_get_prompt
    by (simp only: trim_padded_abc token_count_padded_abc length_samples Number_toString_small)
       blast
  with l decimal_value_samples show ?thesis by simp
qed

text \<open>
  The prompt \<open>abc\<close> with a blank on each side has raw length 5, and the reply gives the
  character count 3.
\<close>

theorem character_count_raw_length_counterexample:
  \<open>length (js '' abc '') = 5 \<and>
   POST_mock_generateId sample_env (JSON (mock_body [] (js '' abc ''))) =
     \<lparr>status = 200,
      payload = Message
        \<lparr>msg_id = js ''3b241101-e2bb-4255-8caf-4136c566a962'', role = Assistant,
         content = js ''You said: "abc"\<newline>\<newline>Here is a simple analysis of your message:\<newline>- Approximate word count: 1\<newline>- Character count (including spaces): 3\<newline>\<newline>This is mini, a mock AI assistant. Replace the logic in /app/api/chat/route.ts with a real LLM API call (OpenAI, Gemini, etc.) to get smarter responses.'',
         createdAt = js ''2023-11-14T22:13:20.000Z''\<rparr>\<rparr>\<close>
proof -
  have t: "trim (js '' abc '') \<noteq> []" unfolding trim_padded_abc by (simp add: js_def)
  have l: "length (js '' abc '') = 5" by (simp add: js_def)
  have e: "generateId sample_env = js ''3b241101-e2bb-4255-8caf-4136c566a962''"
    "Date_toISOString sample_env = js ''2023-11-14T22:13:20.000Z''"
    by (simp_all add: generateId_def sample_env_def)
  show ?thesis
    unfolding mock_generateId_accept[OF sample_get_prompt t] trim_padded_abc wordCount_abc
      length_samples replyContent_abc e
    using l by simp
qed

subsection \<open>C7: the mock reply is a function of the prompt\<close>

text \<open>
  C7.  Two runs of a mock handler on bodies with the same \<open>prompt\<close> field, with any
  other fields and in any two environments, give responses that agree on everything but
  the message id and the timestamp; in particular the message texts are identical.  For
  the first handler the two platforms have to agree on providing \<open>crypto.randomUUID\<close>;
  whenever both runs return a message, the texts are identical.
\<close>

theorem mock_reply_deterministic:
  "get_field b1 (js ''prompt'') = get_field b2 (js ''prompt'') \<longrightarrow>
     without_id_and_time (POST_mock_generateId e1 (JSON b1)) =
       without_id_and_time (POST_mock_generateId e2 (JSON b2)) \<and>
     ((crypto_randomUUID e1 = None \<longleftrightarrow> crypto_randomUUID e2 = None) \<longrightarrow>
        without_id_and_time (POST_mock_randomUUID e1 (JSON b1)) =
          without_id_and_time (POST_mock_randomUUID e2 (JSON b2))) \<and>
     (\<forall>m1 m2. payload (POST_mock_randomUUID e1 (JSON b1)) = Message m1 \<and>
              payload (POST_mock_randomUUID e2 (JSON b2)) = Message m2 \<longrightarrow>
              content m1 = content m2)"
  by (auto simp: POST_mock_generateId_def POST_mock_randomUUID_def without_id_and_time_def
        NextResponse_json_def internal_error_def Let_def
        split: sum.splits option.splits)

text \<open>The theorem at two bodies with prompt \<open>abc\<close> and different messages.\<close>

theorem mock_reply_deterministic_witness:
  "POST_mock_generateId sample_env (JSON (mock_body [] (js ''abc''))) \<noteq>
     POST_mock_generateId sample_env_later (JSON (mock_body sample_chat (js ''abc''))) \<and>
   without_id_and_time (POST_mock_generateId sample_env (JSON (mock_body [] (js ''abc'')))) =
     without_id_and_time
       (POST_mock_generateId sample_env_later (JSON (mock_body sample_chat (js ''abc'')))) \<and>
   without_id_and_time (POST_mock_randomUUID sample_env (JSON (mock_body [] (js ''abc'')))) =
     without_id_and_time
       (POST_mock_randomUUID sample_env_later (JSON (mock_body sample_chat (js ''abc''))))"
proof -
  have t: "trim (js ''abc'') \<noteq> []" unfolding trim_abc by (simp add: js_def)
  have d: "POST_mock_generateId sample_env (JSON (mock_body [] (js ''abc''))) \<noteq>
     POST_mock_generateId sample_env_later (JSON (mock_body sample_chat (js ''abc'')))"
    unfolding mock_generateId_accept[OF sample_get_prompt t]
    using sample_env_later_differs
    by (auto simp: generateId_def sample_env_later_def sample_env_def)
  have a: "(crypto_randomUUID sample_env = None) = (crypto_randomUUID sample_env_later = None)"
    by (simp add: sample_env_later_def sample_env_def)
  show ?thesis
    using mock_reply_deterministic
      [of "mock_body [] (js ''abc'')" "mock_body sample_chat (js ''abc'')" sample_env
        sample_env_later] d a
    by (simp add: sample_get_prompt)
qed

subsection \<open>C8: the fallback text\<close>

text \<open>
  C8 (as amended).  Whenever the provider call was made and returned, the response is 200
  and its message text is the fixed fallback string if the provider returned no content
  (OpenAI: no first choice, a first choice without message, or a \<open>null\<close> content;
  Gemini: no text), and is the returned string otherwise, also when that string is empty.
\<close>

theorem fallback_for_absent_content:
  "(snd (POST_provider e req) = [OpenAI_call k rq] \<and> chat_completions_create e k rq = Inr c \<longrightarrow>
      (\<exists>m. fst (POST_provider e req) = \<lparr>status = 200, payload = Message m\<rparr> \<and>
         (choices c = [] \<longrightarrow> content m = js ''I could not generate a response.'') \<and>
         (\<forall>rest. choices c = Choice None # rest \<longrightarrow>
            content m = js ''I could not generate a response.'') \<and>
         (\<forall>rest. choices c = Choice (Some (CompletionMessage None)) # rest \<longrightarrow>
            content m = js ''I could not generate a response.'') \<and>
         (\<forall>s rest. choices c = Choice (Some (CompletionMessage (Some s))) # rest \<longrightarrow>
            content m = s))) \<and>
   (snd (POST_provider e req) = [Gemini_call k rq'] \<and> generateContent_text e k rq' = Inr t \<longrightarrow>
      (\<exists>m. fst (POST_provider e req) = \<lparr>status = 200, payload = Message m\<rparr> \<and>
         (t = None \<longrightarrow> content m = js ''I could not generate a response.'') \<and>
         (\<forall>s. t = Some s \<longrightarrow> content m = s)))"
proof (intro conjI impI; elim conjE)
  obtain r calls where rc: "POST_provider e req = (r, calls)" by (cases "POST_provider e req")
  {
    assume "snd (POST_provider e req) = [OpenAI_call k rq]"
      and cr: "chat_completions_create e k rq = Inr c"
    with rc have calls: "calls = [OpenAI_call k rq]" by simp
    with provider_cases[OF rc] gemini_branch_shape[of e _ r calls]
    obtain ms where "openai_branch e ms = (r, calls)" by auto
    from openai_branch_called[OF this calls] cr
    have "r = \<lparr>status = 200, payload = Message \<lparr>msg_id = generateId e, role = Assistant,
                 content = first_content c, createdAt = Date_toISOString e\<rparr>\<rparr>"
      by simp
    with rc show "\<exists>m. fst (POST_provider e req) = \<lparr>status = 200, payload = Message m\<rparr> \<and>
         (choices c = [] \<longrightarrow> content m = js ''I could not generate a response.'') \<and>
         (\<forall>rest. choices c = Choice None # rest \<longrightarrow>
            content m = js ''I could not generate a response.'') \<and>
         (\<forall>rest. choices c = Choice (Some (CompletionMessage None)) # rest \<longrightarrow>
            content m = js ''I could not generate a response.'') \<and>
         (\<forall>s rest. choices c = Choice (Some (CompletionMessage (Some s))) # rest \<longrightarrow>
            content m = s)"
      by (auto simp: first_content_def fallback_text_def)
  }
  {
    assume "snd (POST_provider e req) = [Gemini_call k rq']"
      and cr: "generateContent_text e k rq' = Inr t"
    with rc have calls: "calls = [Gemini_call k rq']" by simp
    with provider_cases[OF rc] openai_branch_shape[of e _ r calls]
    obtain ms where "gemini_branch e ms = (r, calls)" by auto
    from gemini_branch_called[OF this calls] cr
    have "r = \<lparr>status = 200, payload = Message \<lparr>msg_id = generateId e, role = Assistant,
                 content = responseText_of t, createdAt = Date_toISOString e\<rparr>\<rparr>"
      by simp
    with rc show "\<exists>m. fst (POST_provider e req) = \<lparr>status = 200, payload = Message m\<rparr> \<and>
         (t = None \<longrightarrow> content m = js ''I could not generate a response.'') \<and>
         (\<forall>s. t = Some s \<longrightarrow> content m = s)"
      by (auto simp: responseText_of_def fallback_text_def)
  }
qed

text \<open>The theorem at an OpenAI completion whose content is \<open>null\<close>.\<close>

theorem fallback_for_absent_content_witness:
  "(\<exists>m. fst (POST_provider (sample_env_openai None)
           (JSON (provider_body (js ''openai'') sample_chat))) =
          \<lparr>status = 200, payload = Message m\<rparr> \<and>
        content m = js ''I could not generate a response.'') \<and>
   (\<exists>m. fst (POST_provider (sample_env_gemini None)
           (JSON (provider_body (js ''gemini'') sample_chat))) =
          \<lparr>status = 200, payload = Message m\<rparr> \<and>
        content m = js ''I could not generate a response.'')"
  using fallback_for_absent_content
    [of "sample_env_openai None" "JSON (provider_body (js ''openai'') sample_chat)"
        "js ''sk-test''" sample_openai_request
        "Completion [Choice (Some (CompletionMessage None))]"]
    fallback_for_absent_content
    [of "sample_env_gemini None" "JSON (provider_body (js ''gemini'') sample_chat)"
        "js ''g-test''" _ _ sample_gemini_request None]
  by (simp add: sample_openai_run sample_env_openai_fields sample_gemini_run
        sample_env_gemini_fields)

text \<open>
  An OpenAI completion whose content is the empty string: the message text is the empty
  string, not the fallback string.
\<close>

theorem empty_string_content_counterexample:
  "chat_completions_create (sample_env_openai (Some [])) (js ''sk-test'') sample_openai_request =
     Inr (Completion [Choice (Some (CompletionMessage (Some [])))]) \<and>
   POST_provider (sample_env_openai (Some [])) (JSON (provider_body (js ''openai'') sample_chat)) =
     (\<lparr>status = 200,
       payload = Message
         \<lparr>msg_id = js ''3b241101-e2bb-4255-8caf-4136c566a962'', role = Assistant,
          content = [], createdAt = js ''2023-11-14T22:13:20.000Z''\<rparr>\<rparr>,
      [OpenAI_call (js ''sk-test'') sample_openai_request]) \<and>
   [] \<noteq> js ''I could not generate a response.''"
  by (simp add: sample_openai_run sample_env_openai_fields first_content_def) (simp add: js_def)

subsection \<open>C9: the role of the returned message\<close>

text \<open>
  C9.  In each of the three handlers, a response with status 200 carries a message whose
  role is \<open>assistant\<close>.
\<close>

theorem ok_response_role_assistant:
  "(status (POST_mock_randomUUID e req) = 200 \<longrightarrow>
      (\<exists>m. payload (POST_mock_randomUUID e req) = Message m \<and> role m = Assistant)) \<and>
   (status (POST_mock_generateId e req) = 200 \<longrightarrow>
      (\<exists>m. payload (POST_mock_generateId e req) = Message m \<and> role m = Assistant)) \<and>
   (status (fst (POST_provider e req)) = 200 \<longrightarrow>
      (\<exists>m. payload (fst (POST_provider e req)) = Message m \<and> role m = Assistant))"
proof (intro conjI impI)
  assume "status (POST_mock_randomUUID e req) = 200"
  then obtain body p u where "req = JSON body"
    "get_field body (js ''prompt'') = Inr (Some (JStr p))" "trim p \<noteq> []"
    "crypto_randomUUID e = Some u"
    using mock_randomUUID_200 by blast
  then show "\<exists>m. payload (POST_mock_randomUUID e req) = Message m \<and> role m = Assistant"
    by (simp add: mock_randomUUID_accept)
next
  assume "status (POST_mock_generateId e req) = 200"
  then obtain body p where "req = JSON body"
    "get_field body (js ''prompt'') = Inr (Some (JStr p))" "trim p \<noteq> []"
    using mock_generateId_200 by blast
  then show "\<exists>m. payload (POST_mock_generateId e req) = Message m \<and> role m = Assistant"
    by (simp add: mock_generateId_accept)
next
  assume ok: "status (fst (POST_provider e req)) = 200"
  obtain r calls where rc: "POST_provider e req = (r, calls)" by (cases "POST_provider e req")
  with ok have s: "status r = 200" by simp
  from provider_cases[OF rc] s consider
      ms where "openai_branch e ms = (r, calls)"
    | ms where "gemini_branch e ms = (r, calls)"
    by auto
  then have "\<exists>m. payload r = Message m \<and> role m = Assistant"
  proof cases
    case 1
    with openai_branch_shape[OF 1] s obtain k rq where "calls = [OpenAI_call k rq]" by auto
    from openai_branch_called[OF 1 this] s show ?thesis
      by (auto simp: internal_error_def NextResponse_json_def split: sum.splits)
  next
    case 2
    with gemini_branch_shape[OF 2] s obtain k rq where "calls = [Gemini_call k rq]" by auto
    from gemini_branch_called[OF 2 this] s show ?thesis
      by (auto simp: internal_error_def NextResponse_json_def split: sum.splits)
  qed
  with rc show "\<exists>m. payload (fst (POST_provider e req)) = Message m \<and> role m = Assistant"
    by simp
qed

text \<open>The theorem at a request that each handler answers with 200.\<close>

theorem ok_response_role_assistant_witness:
  "(\<exists>m. payload (POST_mock_randomUUID sample_env (JSON (mock_body [] (js ''abc'')))) = Message m \<and>
        role m = Assistant) \<and>
   (\<exists>m. payload (POST_mock_generateId sample_env (JSON (mock_body [] (js ''abc'')))) = Message m \<and>
        role m = Assistant) \<and>
   (\<exists>m. payload (fst (POST_provider (sample_env_openai (Some (js ''Hello!'')))
        (JSON (provider_body (js ''openai'') sample_chat)))) = Message m \<and> role m = Assistant) \<and>
   (\<exists>m. payload (fst (POST_provider (sample_env_gemini (Some (js ''Hello!'')))
        (JSON (provider_body (js ''gemini'') sample_chat)))) = Message m \<and> role m = Assistant)"
proof -
  have t: "trim (js ''abc'') \<noteq> []" unfolding trim_abc by (simp add: js_def)
  have 1: "status (POST_mock_randomUUID sample_env (JSON (mock_body [] (js ''abc'')))) = 200"
    by (simp add: mock_randomUUID_accept[OF sample_get_prompt t sample_env_uuid])
  have 2: "status (POST_mock_generateId sample_env (JSON (mock_body [] (js ''abc'')))) = 200"
    by (simp add: mock_generateId_accept[OF sample_get_prompt t])
  have 3: "status (fst (POST_provider (sample_env_openai (Some (js ''Hello!'')))
        (JSON (provider_body (js ''openai'') sample_chat)))) = 200"
    by (simp add: sample_openai_run)
  have 4: "status (fst (POST_provider (sample_env_gemini (Some (js ''Hello!'')))
        (JSON (provider_body (js ''gemini'') sample_chat)))) = 200"
    by (simp add: sample_gemini_run)
  show ?thesis
    using ok_response_role_assistant[of sample_env "JSON (mock_body [] (js ''abc''))"]
      ok_response_role_assistant[of "sample_env_openai (Some (js ''Hello!''))"
        "JSON (provider_body (js ''openai'') sample_chat)"]
      ok_response_role_assistant[of "sample_env_gemini (Some (js ''Hello!''))"
        "JSON (provider_body (js ''gemini'') sample_chat)"] 1 2 3 4
    by blast
qed

subsection \<open>C10: a blank prompt\<close>

text \<open>
  C10.  In both mock handlers a prompt that consists of whitespace only is rejected with
  status 400 and the error string \<open>Prompt is required\<close>, the same response as for a
  body without a prompt; and the text of every 200 response contains the word-count line
  with the decimal rendering of a number that is at least 1, the word count of the
  request's trimmed prompt.
\<close>

theorem blank_prompt_rejected:
  "((\<forall>c\<in>set p. is_ws c) \<and> get_field body (js ''prompt'') = Inr (Some (JStr p)) \<and>
    get_field absent (js ''prompt'') = Inr None \<longrightarrow>
      POST_mock_randomUUID e (JSON body) =
        \<lparr>status = 400, payload = Error (js ''Prompt is required'')\<rparr> \<and>
      POST_mock_randomUUID e (JSON absent) = POST_mock_randomUUID e (JSON body) \<and>
      POST_mock_generateId e (JSON body) =
        \<lparr>status = 400, payload = Error (js ''Prompt is required'')\<rparr> \<and>
      POST_mock_generateId e (JSON absent) = POST_mock_generateId e (JSON body)) \<and>
   (status (POST_mock_randomUUID e req) = 200 \<longrightarrow>
      (\<exists>b q. req = JSON b \<and> get_field b (js ''prompt'') = Inr (Some (JStr q)) \<and>
         1 \<le> wordCount_of (trim q) \<and>
         decimal_value (Number_toString (wordCount_of (trim q))) = wordCount_of (trim q) \<and>
         embeds_counts (trim q) (Number_toString (wordCount_of (trim q)))
           (Number_toString (length (trim q))) (POST_mock_randomUUID e req))) \<and>
   (status (POST_mock_generateId e req) = 200 \<longrightarrow>
      (\<exists>b q. req = JSON b \<and> get_field b (js ''prompt'') = Inr (Some (JStr q)) \<and>
         1 \<le> wordCount_of (trim q) \<and>
         decimal_value (Number_toString (wordCount_of (trim q))) = wordCount_of (trim q) \<and>
         embeds_counts (trim q) (Number_toString (wordCount_of (trim q)))
           (Number_toString (length (trim q))) (POST_mock_generateId e req)))"
proof (intro conjI impI; (elim conjE)?)
  assume ws: "\<forall>c\<in>set p. is_ws c" and g: "get_field body (js ''prompt'') = Inr (Some (JStr p))"
    and a: "get_field absent (js ''prompt'') = Inr None"
  from ws have t: "trim p = []" by (simp add: trim_Nil_iff)
  show u: "POST_mock_randomUUID e (JSON body) =
        \<lparr>status = 400, payload = Error (js ''Prompt is required'')\<rparr>"
    using t by (intro mock_randomUUID_reject[OF g]) simp
  show i: "POST_mock_generateId e (JSON body) =
        \<lparr>status = 400, payload = Error (js ''Prompt is required'')\<rparr>"
    using t by (intro mock_generateId_reject[OF g]) simp
  show "POST_mock_randomUUID e (JSON absent) = POST_mock_randomUUID e (JSON body)"
    unfolding u by (intro mock_randomUUID_reject[OF a]) simp
  show "POST_mock_generateId e (JSON absent) = POST_mock_generateId e (JSON body)"
    unfolding i by (intro mock_generateId_reject[OF a]) simp
next
  assume "status (POST_mock_randomUUID e req) = 200"
  then obtain body q u where r: "req = JSON body"
    and g: "get_field body (js ''prompt'') = Inr (Some (JStr q))" and t: "trim q \<noteq> []"
    and u: "crypto_randomUUID e = Some u"
    using mock_randomUUID_200 by blast
  have "embeds_counts (trim q) (Number_toString (wordCount_of (trim q)))
           (Number_toString (length (trim q))) (POST_mock_randomUUID e (JSON body))"
    unfolding mock_randomUUID_accept[OF g t u] by (rule replyContent_embeds)
  with r g wordCount_trim_pos[OF t] decimal_value_Number_toString
  show "\<exists>b q. req = JSON b \<and> get_field b (js ''prompt'') = Inr (Some (JStr q)) \<and>
         1 \<le> wordCount_of (trim q) \<and>
         decimal_value (Number_toString (wordCount_of (trim q))) = wordCount_of (trim q) \<and>
         embeds_counts (trim q) (Number_toString (wordCount_of (trim q)))
           (Number_toString (length (trim q))) (POST_mock_randomUUID e req)"
    by blast
next
  assume "status (POST_mock_generateId e req) = 200"
  then obtain body q where r: "req = JSON body"
    and g: "get_field body (js ''prompt'') = Inr (Some (JStr q))" and t: "trim q \<noteq> []"
    using mock_generateId_200 by blast
  have "embeds_counts (trim q) (Number_toString (wordCount_of (trim q)))
           (Number_toString (length (trim q))) (POST_mock_generateId e (JSON body))"
    unfolding mock_generateId_accept[OF g t] by (rule replyContent_embeds)
  with r g wordCount_trim_pos[OF t] decimal_value_Number_toString
  show "\<exists>b q. req = JSON b \<and> get_field b (js ''prompt'') = Inr (Some (JStr q)) \<and>
         1 \<le> wordCount_of (trim q) \<and>
         decimal_value (Number_toString (wordCount_of (trim q))) = wordCount_of (trim q) \<and>
         embeds_counts (trim q) (Number_toString (wordCount_of (trim q)))
           (Number_toString (length (trim q))) (POST_mock_generateId e req)"
    by blast
qed

text \<open>
  The theorem at a prompt of a space, a tab and a line feed, and at the prompt \<open>abc\<close>.
\<close>

theorem blank_prompt_rejected_witness:
  "POST_mock_randomUUID sample_env (JSON (mock_body [] [0x20, 0x09, 0x0A])) =
     \<lparr>status = 400, payload = Error (js ''Prompt is required'')\<rparr> \<and>
   POST_mock_generateId sample_env (JSON (mock_body [] [0x20, 0x09, 0x0A])) =
     \<lparr>status = 400, payload = Error (js ''Prompt is required'')\<rparr> \<and>
   POST_mock_randomUUID sample_env (JSON (JObj [])) =
     POST_mock_randomUUID sample_env (JSON (mock_body [] [0x20, 0x09, 0x0A])) \<and>
   POST_mock_generateId sample_env (JSON (JObj [])) =
     POST_mock_generateId sample_env (JSON (mock_body [] [0x20, 0x09, 0x0A])) \<and>
   decimal_value (js ''1'') = 1 \<and>
   embeds_counts (js ''abc'') (js ''1'') (js ''3'')
     (POST_mock_randomUUID sample_env (JSON (mock_body [] (js ''abc'')))) \<and>
   embeds_counts (js ''abc'') (js ''1'') (js ''3'')
     (POST_mock_generateId sample_env (JSON (mock_body [] (js ''abc''))))"
proof -
  have t: "trim (js ''abc'') \<noteq> []" unfolding trim_abc by (simp add: js_def)
  have ok: "status (POST_mock_generateId sample_env (JSON (mock_body [] (js ''abc'')))) = 200"
    by (simp add: mock_generateId_accept[OF sample_get_prompt t])
  have ok': "status (POST_mock_randomUUID sample_env (JSON (mock_body [] (js ''abc'')))) = 200"
    by (simp add: mock_randomUUID_accept[OF sample_get_prompt t sample_env_uuid])
  have ws: "\<forall>c\<in>set [0x20, 0x09, 0x0A :: 16 word]. is_ws c" by (simp add: is_ws_def)
  have a: "get_field (JObj []) (js ''prompt'') = Inr None" by simp
  note inst = blank_prompt_rejected
        [of "[0x20, 0x09, 0x0A]" "mock_body [] [0x20, 0x09, 0x0A]" "JObj []" sample_env
          "JSON (mock_body [] (js ''abc''))"]
  have first: "POST_mock_randomUUID sample_env (JSON (mock_body [] [0x20, 0x09, 0x0A])) =
     \<lparr>status = 400, payload = Error (js ''Prompt is required'')\<rparr> \<and>
   POST_mock_generateId sample_env (JSON (mock_body [] [0x20, 0x09, 0x0A])) =
     \<lparr>status = 400, payload = Error (js ''Prompt is required'')\<rparr> \<and>
   POST_mock_randomUUID sample_env (JSON (JObj [])) =
     POST_mock_randomUUID sample_env (JSON (mock_body [] [0x20, 0x09, 0x0A])) \<and>
   POST_mock_generateId sample_env (JSON (JObj [])) =
     POST_mock_generateId sample_env (JSON (mock_body [] [0x20, 0x09, 0x0A]))"
    using inst ws a sample_get_prompt[of "[]" "[0x20, 0x09, 0x0A]"] by blast
  from inst ok' obtain b q where "JSON (mock_body [] (js ''abc'')) = JSON b"
    "get_field b (js ''prompt'') = Inr (Some (JStr q))"
    "embeds_counts (trim q) (Number_toString (wordCount_of (trim q)))
           (Number_toString (length (trim q)))
           (POST_mock_randomUUID sample_env (JSON (mock_body [] (js ''abc''))))"
    by blast
  then have second: "embeds_counts (js ''abc'') (js ''1'') (js ''3'')
     (POST_mock_randomUUID sample_env (JSON (mock_body [] (js ''abc''))))"
    using sample_get_prompt[of "[]" "js ''abc''"]
    by (auto simp: trim_abc wordCount_abc length_samples Number_toString_small
          simp del: One_nat_def)
  from inst ok obtain b q where "JSON (mock_body [] (js ''abc'')) = JSON b"
    "get_field b (js ''prompt'') = Inr (Some (JStr q))"
    "embeds_counts (trim q) (Number_toString (wordCount_of (trim q)))
           (Number_toString (length (trim q)))
           (POST_mock_generateId sample_env (JSON (mock_body [] (js ''abc''))))"
    by blast
  then have third: "embeds_counts (js ''abc'') (js ''1'') (js ''3'')
     (POST_mock_generateId sample_env (JSON (mock_body [] (js ''abc''))))"
    using sample_get_prompt[of "[]" "js ''abc''"]
    by (auto simp: trim_abc wordCount_abc length_samples Number_toString_small
          simp del: One_nat_def)
  from first second third decimal_value_samples(1) show ?thesis by blast
qed

end
